theory Spec2Isabelle
  imports Complex_Main "HOL-Library.Char_ord" "HOL-Library.List_Lexorder" "HOL-Library.Multiset"
begin

section \<open>Numbers, missing values and Python errors\<close>

text \<open>
  The analytics code works on pandas frames whose numeric columns are float64.
  Finite floats are idealised as exact rationals (rounding is not modelled); the
  non-finite values that numpy produces (NaN for an empty mean or \<open>0/0\<close>, an
  infinity for \<open>x/0\<close>) are explicit constructors.  A missing cell (NaN, NaT or
  None in a column) is \<open>None\<close> of an option type.
\<close>

datatype fl = Fin rat | PInf | NInf | NaN

fun fl_add :: "fl \<Rightarrow> fl \<Rightarrow> fl" where
  "fl_add (Fin a) (Fin b) = Fin (a + b)"
| "fl_add NaN _ = NaN"
| "fl_add _ NaN = NaN"
| "fl_add PInf NInf = NaN"
| "fl_add NInf PInf = NaN"
| "fl_add PInf _ = PInf"
| "fl_add _ PInf = PInf"
| "fl_add NInf _ = NInf"
| "fl_add _ NInf = NInf"

fun fl_neg :: "fl \<Rightarrow> fl" where
  "fl_neg (Fin a) = Fin (- a)"
| "fl_neg PInf = NInf"
| "fl_neg NInf = PInf"
| "fl_neg NaN = NaN"

definition fl_sub :: "fl \<Rightarrow> fl \<Rightarrow> fl" where
  "fl_sub x y = fl_add x (fl_neg y)"

fun fl_mul :: "fl \<Rightarrow> fl \<Rightarrow> fl" where
  "fl_mul (Fin a) (Fin b) = Fin (a * b)"
| "fl_mul NaN _ = NaN"
| "fl_mul _ NaN = NaN"
| "fl_mul PInf (Fin b) = (if b = 0 then NaN else if 0 < b then PInf else NInf)"
| "fl_mul NInf (Fin b) = (if b = 0 then NaN else if 0 < b then NInf else PInf)"
| "fl_mul (Fin a) PInf = (if a = 0 then NaN else if 0 < a then PInf else NInf)"
| "fl_mul (Fin a) NInf = (if a = 0 then NaN else if 0 < a then NInf else PInf)"
| "fl_mul PInf PInf = PInf"
| "fl_mul NInf NInf = PInf"
| "fl_mul PInf NInf = NInf"
| "fl_mul NInf PInf = NInf"

text \<open>numpy true division: a zero divisor gives NaN or an infinity, it never raises.\<close>

fun fl_div :: "fl \<Rightarrow> fl \<Rightarrow> fl" where
  "fl_div (Fin a) (Fin b) =
     (if b = 0 then (if a = 0 then NaN else if 0 < a then PInf else NInf) else Fin (a / b))"
| "fl_div NaN _ = NaN"
| "fl_div _ NaN = NaN"
| "fl_div (Fin a) PInf = Fin 0"
| "fl_div (Fin a) NInf = Fin 0"
| "fl_div PInf (Fin b) = (if 0 \<le> b then PInf else NInf)"
| "fl_div NInf (Fin b) = (if 0 \<le> b then NInf else PInf)"
| "fl_div PInf PInf = NaN"
| "fl_div PInf NInf = NaN"
| "fl_div NInf PInf = NaN"
| "fl_div NInf NInf = NaN"

text \<open>The comparison \<open>x > 0\<close> on a float: false for NaN.\<close>

fun fl_pos :: "fl \<Rightarrow> bool" where
  "fl_pos (Fin a) = (0 < a)"
| "fl_pos PInf = True"
| "fl_pos NInf = False"
| "fl_pos NaN = False"

text \<open>Summing a list of floats left to right from zero.\<close>

definition fl_sum :: "fl list \<Rightarrow> fl" where
  "fl_sum xs = foldl fl_add (Fin 0) xs"

datatype error = ValueError string | KeyError string | ZeroDivisionError

text \<open>\<open>Series.dropna\<close>: the present values of a column, in order.\<close>

fun dropna :: "'a option list \<Rightarrow> 'a list" where
  "dropna [] = []"
| "dropna (None # xs) = dropna xs"
| "dropna (Some x # xs) = x # dropna xs"

text \<open>\<open>Series.mean\<close> and \<open>Series.median\<close> of the present values; NaN when there is none.\<close>

definition mean :: "rat list \<Rightarrow> fl" where
  "mean xs = (if xs = [] then NaN else Fin (sum_list xs / of_nat (length xs)))"

definition median :: "rat list \<Rightarrow> fl" where
  "median xs =
     (if xs = [] then NaN
      else let s = sort xs; n = length s
           in if odd n then Fin (s ! (n div 2))
              else Fin ((s ! (n div 2 - 1) + s ! (n div 2)) / 2))"

text \<open>\<open>Series.nunique\<close>: the number of distinct present values, a Python int.\<close>

definition nunique :: "'a list \<Rightarrow> nat" where
  "nunique xs = length (remdups xs)"

text \<open>
  \<open>DataFrame.groupby(key)\<close> with its defaults (\<open>sort=True\<close>, \<open>dropna=True\<close>): one
  group per distinct present key, groups in ascending key order, each group holding
  the rows of that key in frame order.
\<close>

definition group_keys :: "('k::linorder) option list \<Rightarrow> 'k list" where
  "group_keys ks = sort (remdups (dropna ks))"

definition groupby :: "('r \<Rightarrow> ('k::linorder) option) \<Rightarrow> 'r list \<Rightarrow> ('k \<times> 'r list) list" where
  "groupby key rs = map (\<lambda>k. (k, filter (\<lambda>r. key r = Some k) rs)) (group_keys (map key rs))"

section \<open>The sales view\<close>

text \<open>
  One row of the frame built by \<open>create_sales_dataset\<close>.  The key and amount
  columns of the order-items base are never missing; every column that comes from a
  left join or from a nullable source column is an option.  Timestamps are counted
  in seconds.  A frame carries the names of the columns it has: the metric functions
  test for them (\<open>'month' not in self.sales_data.columns\<close>), and selecting a column
  that is not there raises KeyError.
\<close>

record sales_row =
  order_id :: string
  order_item_id :: int
  product_id :: string
  price :: rat
  freight_value :: rat
  customer_id :: "string option"
  order_status :: "string option"
  order_purchase_timestamp :: "int option"
  order_delivered_customer_date :: "int option"
  year :: "int option"
  month :: "int option"
  product_category_name :: "string option"
  customer_state :: "string option"
  customer_city :: "string option"
  review_score :: "int option"
  delivery_days :: "int option"

record sales_data =
  columns :: "string list"
  rows :: "sales_row list"

section \<open>Revenue metrics\<close>

text \<open>
  The dictionary returned by \<open>calculate_revenue_metrics\<close>.  The three growth keys
  exist only when comparison data was given (outer option); a present key holds a
  float or Python's None (inner option).
\<close>

record revenue_metrics =
  total_revenue :: rat
  average_order_value :: fl
  median_order_value :: fl
  total_orders :: nat
  total_items :: nat
  avg_items_per_order :: rat
  revenue_growth_pct :: "fl option option"
  order_growth_pct :: "fl option option"
  aov_growth_pct :: "fl option option"

text \<open>\<open>df.groupby('order_id')['price'].sum()\<close>: one price total per order.\<close>

definition order_totals :: "sales_row list \<Rightarrow> rat list" where
  "order_totals rs =
     map (\<lambda>(k, g). sum_list (map price g)) (groupby (\<lambda>r. Some (order_id r)) rs)"

text \<open>
  \<open>total_items / total_orders\<close> divides two Python ints, which raises
  ZeroDivisionError on a zero divisor; the growth branches test their divisor first.
\<close>

definition calculate_revenue_metrics ::
  "sales_data \<Rightarrow> sales_data option \<Rightarrow> error + revenue_metrics" where
  "calculate_revenue_metrics sd comparison_data =
     (if ''price'' \<notin> set (columns sd) then Inl (KeyError ''price'')
      else if ''order_id'' \<notin> set (columns sd) then Inl (KeyError ''order_id'')
      else
        let tr = sum_list (map price (rows sd));
            ot = order_totals (rows sd);
            aov = mean ot;
            med = median ot;
            n_orders = nunique (map order_id (rows sd));
            n_items = length (rows sd)
        in if n_orders = 0 then Inl ZeroDivisionError
           else
             let metrics = \<lparr> total_revenue = tr, average_order_value = aov,
                   median_order_value = med, total_orders = n_orders, total_items = n_items,
                   avg_items_per_order = of_nat n_items / of_nat n_orders,
                   revenue_growth_pct = None, order_growth_pct = None, aov_growth_pct = None \<rparr>
             in case comparison_data of
                  None \<Rightarrow> Inr metrics
                | Some cd \<Rightarrow>
                    if ''price'' \<notin> set (columns cd) then Inl (KeyError ''price'')
                    else if ''order_id'' \<notin> set (columns cd) then Inl (KeyError ''order_id'')
                    else
                      let prev_revenue = sum_list (map price (rows cd));
                          prev_orders = nunique (map order_id (rows cd));
                          prev_aov = mean (order_totals (rows cd))
                      in Inr (metrics
                           \<lparr> revenue_growth_pct := Some
                               (if 0 < prev_revenue
                                then Some (Fin ((tr - prev_revenue) / prev_revenue * 100))
                                else None),
                             order_growth_pct := Some
                               (if 0 < prev_orders
                                then Some (Fin ((of_nat n_orders - of_nat prev_orders)
                                                 / of_nat prev_orders * 100))
                                else None),
                             aov_growth_pct := Some
                               (if fl_pos prev_aov
                                then Some (fl_mul (fl_div (fl_sub aov prev_aov) prev_aov) (Fin 100))
                                else None) \<rparr>))"


section \<open>Monthly trends\<close>

record monthly_row =
  m_month :: int
  m_revenue :: rat
  m_orders :: nat
  m_revenue_growth_pct :: fl
  m_orders_growth_pct :: fl
  m_avg_order_value :: fl

text \<open>
  \<open>Series.pct_change()\<close> on a column without missing values: NaN in the first
  row, then \<open>x[i] / x[i-1] - 1\<close>.
\<close>

fun pct_change :: "fl list \<Rightarrow> fl list" where
  "pct_change [] = []"
| "pct_change (x # xs) =
     NaN # map (\<lambda>(prev, cur). fl_sub (fl_div cur prev) (Fin 1)) (zip (x # xs) xs)"

text \<open>
  The grouped frame is held column by column, as pandas holds it, and read out row
  by row at the end.  An aggregation over a column that is not in the frame raises
  KeyError.
\<close>

definition calculate_monthly_trends :: "sales_data \<Rightarrow> error + monthly_row list" where
  "calculate_monthly_trends sd =
     (if ''month'' \<notin> set (columns sd) then Inl (ValueError ''Month column not found in sales data'')
      else if ''price'' \<notin> set (columns sd) then Inl (KeyError ''price'')
      else if ''order_id'' \<notin> set (columns sd) then Inl (KeyError ''order_id'')
      else
        let monthly = groupby month (rows sd);
            months = map fst monthly;
            revenue = map (\<lambda>(k, g). sum_list (map price g)) monthly;
            orders = map (\<lambda>(k, g). nunique (map order_id g)) monthly;
            revenue_growth = map (\<lambda>x. fl_mul x (Fin 100)) (pct_change (map Fin revenue));
            orders_growth =
              map (\<lambda>x. fl_mul x (Fin 100)) (pct_change (map (\<lambda>n. Fin (of_nat n)) orders));
            aov = map (\<lambda>(r, n). fl_div (Fin r) (Fin (of_nat n))) (zip revenue orders)
        in Inr (map (\<lambda>i. \<lparr> m_month = months ! i, m_revenue = revenue ! i,
                            m_orders = orders ! i,
                            m_revenue_growth_pct = revenue_growth ! i,
                            m_orders_growth_pct = orders_growth ! i,
                            m_avg_order_value = aov ! i \<rparr>) [0..<length monthly]))"

section \<open>Category and geographic performance\<close>

record category_row =
  c_category :: string
  c_revenue :: rat
  c_orders :: nat
  c_items_sold :: nat
  c_revenue_share_pct :: fl
  c_avg_order_value :: fl

record state_row =
  s_state :: string
  s_revenue :: rat
  s_orders :: nat
  s_customers :: nat
  s_revenue_share_pct :: fl
  s_avg_order_value :: fl

text \<open>
  \<open>sort_values('revenue', ascending=False)\<close> with the default \<open>quicksort\<close>:
  descending by revenue.  numpy's quicksort is not stable, so the source does not fix
  the order of rows of equal revenue; here they come out in the reverse of their
  group order.  No theorem below depends on their order.
\<close>

definition sort_values_desc :: "('a \<Rightarrow> rat) \<Rightarrow> 'a list \<Rightarrow> 'a list" where
  "sort_values_desc key xs = rev (sort_key key xs)"

definition analyze_product_performance :: "sales_data \<Rightarrow> error + category_row list" where
  "analyze_product_performance sd =
     (if ''product_category_name'' \<notin> set (columns sd)
      then Inl (ValueError ''Product category column not found in sales data'')
      else if ''price'' \<notin> set (columns sd) then Inl (KeyError ''price'')
      else if ''order_id'' \<notin> set (columns sd) then Inl (KeyError ''order_id'')
      else if ''order_item_id'' \<notin> set (columns sd) then Inl (KeyError ''order_item_id'')
      else
        let groups = groupby product_category_name (rows sd);
            total_revenue = sum_list (map (\<lambda>(k, g). sum_list (map price g)) groups);
            category_metrics =
              map (\<lambda>(k, g).
                     let revenue = sum_list (map price g);
                         orders = nunique (map order_id g)
                     in \<lparr> c_category = k, c_revenue = revenue, c_orders = orders,
                          c_items_sold = length g,
                          c_revenue_share_pct =
                            fl_mul (fl_div (Fin revenue) (Fin total_revenue)) (Fin 100),
                          c_avg_order_value = fl_div (Fin revenue) (Fin (of_nat orders)) \<rparr>)
                  groups
        in Inr (sort_values_desc c_revenue category_metrics))"

definition analyze_geographic_performance :: "sales_data \<Rightarrow> error + state_row list" where
  "analyze_geographic_performance sd =
     (if ''customer_state'' \<notin> set (columns sd)
      then Inl (ValueError ''Customer state column not found in sales data'')
      else if ''price'' \<notin> set (columns sd) then Inl (KeyError ''price'')
      else if ''order_id'' \<notin> set (columns sd) then Inl (KeyError ''order_id'')
      else if ''customer_id'' \<notin> set (columns sd) then Inl (KeyError ''customer_id'')
      else
        let groups = groupby customer_state (rows sd);
            total_revenue = sum_list (map (\<lambda>(k, g). sum_list (map price g)) groups);
            state_metrics =
              map (\<lambda>(k, g).
                     let revenue = sum_list (map price g);
                         orders = nunique (map order_id g)
                     in \<lparr> s_state = k, s_revenue = revenue, s_orders = orders,
                          s_customers = nunique (dropna (map customer_id g)),
                          s_revenue_share_pct =
                            fl_mul (fl_div (Fin revenue) (Fin total_revenue)) (Fin 100),
                          s_avg_order_value = fl_div (Fin revenue) (Fin (of_nat orders)) \<rparr>)
                  groups
        in Inr (sort_values_desc s_revenue state_metrics))"

section \<open>Satisfaction and delivery\<close>

text \<open>
  These two analyses return a dictionary in both cases: either the metrics or
  \<open>{"error": reason}\<close>.
\<close>

datatype 'a result_dict = ErrorDict string | Metrics 'a

text \<open>\<open>DataFrame.drop_duplicates()\<close>: the first occurrence of every row, in order;
  missing cells compare equal to each other.\<close>

fun drop_duplicates :: "'a list \<Rightarrow> 'a list" where
  "drop_duplicates [] = []"
| "drop_duplicates (x # xs) = x # drop_duplicates (filter (\<lambda>y. y \<noteq> x) xs)"

text \<open>\<open>Series.value_counts(normalize=True).to_dict()\<close> over the present values: the
  relative frequency of every value that occurs.\<close>

definition value_counts_normalize :: "'a list \<Rightarrow> ('a \<rightharpoonup> rat)" where
  "value_counts_normalize xs =
     (\<lambda>k. if k \<in> set xs then Some (of_nat (count_list xs k) / of_nat (length xs)) else None)"

record satisfaction_metrics =
  avg_review_score :: fl
  median_review_score :: fl
  total_reviews :: nat
  score_distribution :: "int \<rightharpoonup> rat"
  high_satisfaction_pct :: rat

text \<open>\<open>len(high_satisfaction) / len(reviews)\<close> divides two Python ints.\<close>

definition analyze_customer_satisfaction ::
  "sales_data \<Rightarrow> error + satisfaction_metrics result_dict" where
  "analyze_customer_satisfaction sd =
     (if ''review_score'' \<notin> set (columns sd)
      then Inr (ErrorDict ''Review score column not found'')
      else if ''order_id'' \<notin> set (columns sd) then Inl (KeyError ''order_id'')
      else
        let reviews = drop_duplicates (map (\<lambda>r. (order_id r, review_score r)) (rows sd));
            scores = dropna (map snd reviews);
            high_satisfaction =
              filter (\<lambda>(oid, s). case s of None \<Rightarrow> False | Some v \<Rightarrow> 4 \<le> v) reviews
        in if length reviews = 0 then Inl ZeroDivisionError
           else Inr (Metrics
             \<lparr> avg_review_score = mean (map of_int scores),
               median_review_score = median (map of_int scores),
               total_reviews = length reviews,
               score_distribution = value_counts_normalize scores,
               high_satisfaction_pct =
                 of_nat (length high_satisfaction) / of_nat (length reviews) * 100 \<rparr>))"

fun categorize_delivery_speed :: "int option \<Rightarrow> string" where
  "categorize_delivery_speed None = ''Unknown''"
| "categorize_delivery_speed (Some days) =
     (if days \<le> 3 then ''1-3 days'' else if days \<le> 7 then ''4-7 days'' else ''8+ days'')"

record delivery_metrics =
  avg_delivery_days :: fl
  median_delivery_days :: fl
  delivery_category_distribution :: "string \<rightharpoonup> rat"
  avg_review_by_delivery_speed :: "string \<rightharpoonup> fl"

text \<open>
  The frame \<open>delivery_data\<close>: the distinct (order id, delivery days, review score)
  rows of the sales data, without those whose delivery days are missing.
\<close>

definition delivery_data_of :: "sales_row list \<Rightarrow> (string \<times> int option \<times> int option) list" where
  "delivery_data_of rs =
     filter (\<lambda>(oid, days, score). days \<noteq> None)
       (drop_duplicates (map (\<lambda>r. (order_id r, delivery_days r, review_score r)) rs))"

definition analyze_delivery_performance ::
  "sales_data \<Rightarrow> error + delivery_metrics result_dict" where
  "analyze_delivery_performance sd =
     (if ''delivery_days'' \<notin> set (columns sd)
      then Inr (ErrorDict ''Delivery days column not found'')
      else if ''order_id'' \<notin> set (columns sd) then Inl (KeyError ''order_id'')
      else if ''review_score'' \<notin> set (columns sd) then Inl (KeyError ''review_score'')
      else
        let delivery_data = delivery_data_of (rows sd);
            days = dropna (map (\<lambda>(oid, days, score). days) delivery_data);
            categorized =
              map (\<lambda>(oid, days, score). (categorize_delivery_speed days, score)) delivery_data
        in Inr (Metrics
             \<lparr> avg_delivery_days = mean (map of_int days),
               median_delivery_days = median (map of_int days),
               delivery_category_distribution = value_counts_normalize (map fst categorized),
               avg_review_by_delivery_speed =
                 (\<lambda>c. if c \<in> set (map fst categorized)
                      then Some (mean (map of_int
                              (dropna (map snd (filter (\<lambda>(c', score). c' = c) categorized)))))
                      else None) \<rparr>))"


section \<open>The loader: cleaned tables and the sales view\<close>

text \<open>
  The cleaned tables of \<open>processed_data\<close>, with the columns the loader reads.  Key
  columns and the purchase timestamp of an order (with the year and month derived
  from it) are present in every row; a product may have no category and an order no
  delivery date.
\<close>

record order_item =
  oi_order_id :: string
  oi_order_item_id :: int
  oi_product_id :: string
  oi_price :: rat
  oi_freight_value :: rat
  oi_total_item_value :: rat

record order_rec =
  o_order_id :: string
  o_customer_id :: string
  o_order_status :: string
  o_order_purchase_timestamp :: int
  o_order_delivered_customer_date :: "int option"
  o_year :: int
  o_month :: int

record product =
  p_product_id :: string
  p_product_category_name :: "string option"

record customer =
  cu_customer_id :: string
  cu_customer_state :: string
  cu_customer_city :: string

record review =
  rv_order_id :: string
  rv_review_score :: int

text \<open>The dictionary \<open>processed_data\<close>: a table is there once it has been cleaned.\<close>

record processed_data =
  pd_orders :: "order_rec list option"
  pd_order_items :: "order_item list option"
  pd_products :: "product list option"
  pd_customers :: "customer list option"
  pd_reviews :: "review list option"

text \<open>
  \<open>pd.merge(left, right, how='left')\<close>: every left row, in order, once for each
  right row with the same key (in right order), and once with the right columns
  missing when no right row has its key.
\<close>

definition merge_left ::
  "('l \<Rightarrow> 'r \<Rightarrow> bool) \<Rightarrow> ('l \<Rightarrow> 'r option \<Rightarrow> 'o) \<Rightarrow> 'l list \<Rightarrow> 'r list \<Rightarrow> 'o list" where
  "merge_left on combine left right =
     concat (map (\<lambda>l. case filter (on l) right of
                         [] \<Rightarrow> [combine l None]
                       | ms \<Rightarrow> map (\<lambda>r. combine l (Some r)) ms) left)"

definition all_columns :: "string list" where
  "all_columns = [''order_id'', ''order_item_id'', ''product_id'', ''price'', ''freight_value'',
     ''customer_id'', ''order_status'', ''order_purchase_timestamp'',
     ''order_delivered_customer_date'', ''year'', ''month'', ''product_category_name'',
     ''customer_state'', ''customer_city'', ''review_score'', ''delivery_days'']"

text \<open>Start with order items: the five selected columns; the others are filled by the
  merges below.\<close>

definition base_row :: "order_item \<Rightarrow> sales_row" where
  "base_row i = \<lparr> order_id = oi_order_id i, order_item_id = oi_order_item_id i,
     product_id = oi_product_id i, price = oi_price i, freight_value = oi_freight_value i,
     customer_id = None, order_status = None, order_purchase_timestamp = None,
     order_delivered_customer_date = None, year = None, month = None,
     product_category_name = None, customer_state = None, customer_city = None,
     review_score = None, delivery_days = None \<rparr>"

text \<open>Merge with orders.\<close>

definition with_order :: "sales_row \<Rightarrow> order_rec option \<Rightarrow> sales_row" where
  "with_order s ord = s\<lparr> customer_id := map_option o_customer_id ord,
     order_status := map_option o_order_status ord,
     order_purchase_timestamp := map_option o_order_purchase_timestamp ord,
     order_delivered_customer_date := Option.bind ord o_order_delivered_customer_date,
     year := map_option o_year ord, month := map_option o_month ord \<rparr>"

definition merge_orders :: "sales_row list \<Rightarrow> order_rec list \<Rightarrow> sales_row list" where
  "merge_orders sales orders = merge_left (\<lambda>s ord. order_id s = o_order_id ord) with_order sales orders"

text \<open>Apply filters: a filter argument that Python takes as false (None, the empty
  string, zero) is skipped.\<close>

definition apply_filters ::
  "int option \<Rightarrow> int option \<Rightarrow> string option \<Rightarrow> sales_row list \<Rightarrow> sales_row list" where
  "apply_filters year_filter month_filter status_filter sales =
     (let sales = (case status_filter of
                     None \<Rightarrow> sales
                   | Some st \<Rightarrow> if st = [] then sales
                               else filter (\<lambda>s. order_status s = Some st) sales);
          sales = (case year_filter of
                     None \<Rightarrow> sales
                   | Some y \<Rightarrow> if y = 0 then sales else filter (\<lambda>s. year s = Some y) sales);
          sales = (case month_filter of
                     None \<Rightarrow> sales
                   | Some m \<Rightarrow> if m = 0 then sales else filter (\<lambda>s. month s = Some m) sales)
      in sales)"

text \<open>Merge with products, customers and reviews.\<close>

definition with_product :: "sales_row \<Rightarrow> product option \<Rightarrow> sales_row" where
  "with_product s p = s\<lparr> product_category_name := Option.bind p p_product_category_name \<rparr>"

definition merge_products :: "sales_row list \<Rightarrow> product list \<Rightarrow> sales_row list" where
  "merge_products sales products =
     merge_left (\<lambda>s p. product_id s = p_product_id p) with_product sales products"

definition with_customer :: "sales_row \<Rightarrow> customer option \<Rightarrow> sales_row" where
  "with_customer s c = s\<lparr> customer_state := map_option cu_customer_state c,
     customer_city := map_option cu_customer_city c \<rparr>"

definition merge_customers :: "sales_row list \<Rightarrow> customer list \<Rightarrow> sales_row list" where
  "merge_customers sales customers =
     merge_left (\<lambda>s c. customer_id s = Some (cu_customer_id c)) with_customer sales customers"

definition with_review :: "sales_row \<Rightarrow> review option \<Rightarrow> sales_row" where
  "with_review s r = s\<lparr> review_score := map_option rv_review_score r \<rparr>"

definition merge_reviews :: "sales_row list \<Rightarrow> review list \<Rightarrow> sales_row list" where
  "merge_reviews sales reviews =
     merge_left (\<lambda>s r. order_id s = rv_order_id r) with_review sales reviews"

text \<open>Calculate delivery days: the whole days of the difference, missing when the
  delivery date is.\<close>

definition with_delivery_days :: "sales_row \<Rightarrow> sales_row" where
  "with_delivery_days s = s\<lparr> delivery_days :=
     (case (order_delivered_customer_date s, order_purchase_timestamp s) of
        (Some d, Some p) \<Rightarrow> Some ((d - p) div 86400)
      | _ \<Rightarrow> None) \<rparr>"

definition create_sales_dataset ::
  "processed_data \<Rightarrow> int option \<Rightarrow> int option \<Rightarrow> string option \<Rightarrow> error + sales_data" where
  "create_sales_dataset pd year_filter month_filter status_filter =
     (case pd_order_items pd of
        None \<Rightarrow> Inl (KeyError ''order_items'')
      | Some order_items \<Rightarrow>
     (case pd_orders pd of
        None \<Rightarrow> Inl (KeyError ''orders'')
      | Some orders \<Rightarrow>
     (let sales = map base_row order_items;
          sales = merge_orders sales orders;
          sales = apply_filters year_filter month_filter status_filter sales
      in case pd_products pd of
        None \<Rightarrow> Inl (KeyError ''products'')
      | Some products \<Rightarrow>
     (let sales = merge_products sales products
      in case pd_customers pd of
        None \<Rightarrow> Inl (KeyError ''customers'')
      | Some customers \<Rightarrow>
     (let sales = merge_customers sales customers
      in case pd_reviews pd of
        None \<Rightarrow> Inl (KeyError ''reviews'')
      | Some reviews \<Rightarrow>
     (let sales = merge_reviews sales reviews
      in Inr \<lparr> columns = all_columns, rows = map with_delivery_days sales \<rparr>))))))"

section \<open>The data summary\<close>

text \<open>The summary dictionary: a key is there when its table has been cleaned.\<close>

record data_summary =
  sum_total_orders :: "nat option"
  sum_date_range :: "(int option \<times> int option) option"
  sum_years_available :: "int list option"
  sum_order_statuses :: "(string \<rightharpoonup> nat) option"
  sum_total_products :: "nat option"
  sum_product_categories :: "nat option"
  sum_total_customers :: "nat option"
  sum_states :: "nat option"

definition series_min :: "int list \<Rightarrow> int option" where
  "series_min xs = (case xs of [] \<Rightarrow> None | x # ys \<Rightarrow> Some (fold min ys x))"

definition series_max :: "int list \<Rightarrow> int option" where
  "series_max xs = (case xs of [] \<Rightarrow> None | x # ys \<Rightarrow> Some (fold max ys x))"

definition value_counts :: "'a list \<Rightarrow> ('a \<rightharpoonup> nat)" where
  "value_counts xs = (\<lambda>k. if k \<in> set xs then Some (count_list xs k) else None)"

definition empty_summary :: data_summary where
  "empty_summary = \<lparr> sum_total_orders = None, sum_date_range = None,
     sum_years_available = None, sum_order_statuses = None, sum_total_products = None,
     sum_product_categories = None, sum_total_customers = None, sum_states = None \<rparr>"

definition get_data_summary :: "processed_data \<Rightarrow> data_summary result_dict" where
  "get_data_summary pd =
     (if pd_orders pd = None \<and> pd_order_items pd = None \<and> pd_products pd = None
         \<and> pd_customers pd = None \<and> pd_reviews pd = None
      then ErrorDict ''No data loaded yet''
      else
        let summary = empty_summary;
            summary = (case pd_orders pd of
                         None \<Rightarrow> summary
                       | Some orders \<Rightarrow> summary
                           \<lparr> sum_total_orders := Some (length orders),
                             sum_date_range := Some
                               (series_min (map o_order_purchase_timestamp orders),
                                series_max (map o_order_purchase_timestamp orders)),
                             sum_years_available := Some (sort (remdups (map o_year orders))),
                             sum_order_statuses := Some (value_counts (map o_order_status orders)) \<rparr>);
            summary = (case pd_products pd of
                         None \<Rightarrow> summary
                       | Some products \<Rightarrow> summary
                           \<lparr> sum_total_products := Some (length products),
                             sum_product_categories := Some
                               (nunique (dropna (map p_product_category_name products))) \<rparr>);
            summary = (case pd_customers pd of
                         None \<Rightarrow> summary
                       | Some customers \<Rightarrow> summary
                           \<lparr> sum_total_customers := Some (length customers),
                             sum_states := Some (nunique (map cu_customer_state customers)) \<rparr>)
        in Metrics summary)"

section \<open>Reference notions used in the statements\<close>

text \<open>The price total of one order, in the words of the specification: the sum of
  \<open>price\<close> over the records of that order.\<close>

definition per_order_price :: "sales_row list \<Rightarrow> string \<Rightarrow> rat" where
  "per_order_price rs oid = (\<Sum>r\<leftarrow>rs. if order_id r = oid then price r else 0)"

text \<open>
  The growth percentage in the words of the specification: absent when the previous
  value is at most zero, \<open>(current - previous) / previous * 100\<close> otherwise.  The
  comparison \<open>x \<le> 0\<close> on a float is false for NaN.
\<close>

fun fl_le0 :: "fl \<Rightarrow> bool" where
  "fl_le0 (Fin a) = (a \<le> 0)"
| "fl_le0 NInf = True"
| "fl_le0 PInf = False"
| "fl_le0 NaN = False"

definition growth_pct_spec :: "fl \<Rightarrow> fl \<Rightarrow> fl option" where
  "growth_pct_spec current previous =
     (if fl_le0 previous then None
      else Some (fl_mul (fl_div (fl_sub current previous) previous) (Fin 100)))"

text \<open>
  The share of a delivery band, in the words of the specification: among the distinct
  (order id, delivery days, score) records whose delivery days are present, the
  fraction whose days lie in the band; no entry when the band has no record.
\<close>

definition band_share :: "sales_row list \<Rightarrow> (int \<Rightarrow> bool) \<Rightarrow> rat option" where
  "band_share rs in_band =
     (let P = (\<lambda>r. (order_id r, delivery_days r, review_score r)) ` set rs;
          T = Set.filter (\<lambda>(oid, days, score). days \<noteq> None) P;
          B = Set.filter (\<lambda>(oid, days, score). case days of None \<Rightarrow> False | Some d \<Rightarrow> in_band d) P
      in if B = {} then None else Some (of_nat (card B) / of_nat (card T)))"

text \<open>A sales record with the given order, item number and price, used in the
  worked examples.\<close>

definition item :: "string \<Rightarrow> int \<Rightarrow> rat \<Rightarrow> sales_row" where
  "item oid n p = \<lparr> order_id = oid, order_item_id = n, product_id = ''P1'', price = p,
     freight_value = 0, customer_id = None, order_status = Some ''delivered'',
     order_purchase_timestamp = None, order_delivered_customer_date = None,
     year = None, month = None, product_category_name = None, customer_state = None,
     customer_city = None, review_score = None, delivery_days = None \<rparr>"

text \<open>The (order id, score) pairs that carry a score, with the score unwrapped.\<close>

fun present_pairs :: "('a \<times> 'b option) list \<Rightarrow> ('a \<times> 'b) list" where
  "present_pairs [] = []"
| "present_pairs ((oid, None) # ps) = present_pairs ps"
| "present_pairs ((oid, Some v) # ps) = (oid, v) # present_pairs ps"

text \<open>Example records: one with delivery days, one with a category and a state, one
  with a month.\<close>

definition delivered :: "string \<Rightarrow> int option \<Rightarrow> sales_row" where
  "delivered oid days = (item oid 1 10)\<lparr>delivery_days := days\<rparr>"

definition sold :: "string \<Rightarrow> rat \<Rightarrow> string option \<Rightarrow> string option \<Rightarrow> sales_row" where
  "sold oid p cat st = (item oid 1 p)\<lparr>product_category_name := cat, customer_state := st,
     customer_id := Some oid\<rparr>"


text \<open>
  The number of rows a left join gives to one left row: the number of right rows
  with its key, and one when there is none.  \<open>fanout\<close> is the number of rows one
  filtered order-item record has in the sales view after the joins with products,
  customers and reviews; \<open>item_key\<close> reads the five columns of the order-items base.
\<close>

definition join_count :: "('l \<Rightarrow> 'r \<Rightarrow> bool) \<Rightarrow> 'r list \<Rightarrow> 'l \<Rightarrow> nat" where
  "join_count on right l = max 1 (length (filter (on l) right))"

definition fanout :: "product list \<Rightarrow> customer list \<Rightarrow> review list \<Rightarrow> sales_row \<Rightarrow> nat" where
  "fanout products customers reviews s =
     join_count (\<lambda>s p. product_id s = p_product_id p) products s
     * join_count (\<lambda>s c. customer_id s = Some (cu_customer_id c)) customers s
     * join_count (\<lambda>s r. order_id s = rv_order_id r) reviews s"

definition item_key :: "sales_row \<Rightarrow> string \<times> int \<times> string \<times> rat \<times> rat" where
  "item_key s = (order_id s, order_item_id s, product_id s, price s, freight_value s)"

text \<open>
  Example tables: two delivered orders of January 2023 with one item each; the
  product, the customer and the review of order \<open>O2\<close> have no row.
\<close>

definition example_tables :: processed_data where
  "example_tables = \<lparr>
     pd_orders = Some
       [\<lparr>o_order_id = ''O1'', o_customer_id = ''C1'', o_order_status = ''delivered'',
         o_order_purchase_timestamp = 1672876800,
         o_order_delivered_customer_date = Some 1673222400, o_year = 2023, o_month = 1\<rparr>,
        \<lparr>o_order_id = ''O2'', o_customer_id = ''C9'', o_order_status = ''delivered'',
         o_order_purchase_timestamp = 1674172800,
         o_order_delivered_customer_date = Some 1674345600, o_year = 2023, o_month = 1\<rparr>],
     pd_order_items = Some
       [\<lparr>oi_order_id = ''O1'', oi_order_item_id = 1, oi_product_id = ''P1'', oi_price = 100,
         oi_freight_value = 10, oi_total_item_value = 110\<rparr>,
        \<lparr>oi_order_id = ''O2'', oi_order_item_id = 1, oi_product_id = ''P9'', oi_price = 50,
         oi_freight_value = 5, oi_total_item_value = 55\<rparr>],
     pd_products = Some [\<lparr>p_product_id = ''P1'', p_product_category_name = Some ''toys''\<rparr>],
     pd_customers = Some
       [\<lparr>cu_customer_id = ''C1'', cu_customer_state = ''SP'', cu_customer_city = ''sao paulo''\<rparr>],
     pd_reviews = Some [\<lparr>rv_order_id = ''O1'', rv_review_score = 5\<rparr>] \<rparr>"

text \<open>The same tables with two reviews of different scores for order \<open>O1\<close> and one
  review for order \<open>O2\<close>.\<close>

definition example_tables_two_reviews :: processed_data where
  "example_tables_two_reviews = example_tables
     \<lparr> pd_reviews := Some [\<lparr>rv_order_id = ''O1'', rv_review_score = 5\<rparr>,
                          \<lparr>rv_order_id = ''O1'', rv_review_score = 3\<rparr>,
                          \<lparr>rv_order_id = ''O2'', rv_review_score = 4\<rparr>] \<rparr>"

section \<open>Grouping and order totals\<close>

lemma dropna_map_Some: "dropna (map (\<lambda>r. Some (f r)) rs) = map f rs"
  by (induction rs) auto

lemma sum_list_if_key:
  "distinct ks \<Longrightarrow> sum_list (map (\<lambda>k. if a = k then (c::rat) else 0) ks) = (if a \<in> set ks then c else 0)"
  by (induction ks) auto

lemma sum_list_groups:
  fixes f :: "'r \<Rightarrow> rat"
  assumes "distinct ks" "key ` set rs \<subseteq> set ks"
  shows "sum_list (map (\<lambda>k. sum_list (map f (filter (\<lambda>r. key r = k) rs))) ks) = sum_list (map f rs)"
  using assms(2)
proof (induction rs)
  case Nil
  then show ?case by simp
next
  case (Cons r rs)
  have "sum_list (map (\<lambda>k. sum_list (map f (filter (\<lambda>r. key r = k) (r # rs)))) ks)
      = sum_list (map (\<lambda>k. (if key r = k then f r else 0) + sum_list (map f (filter (\<lambda>r. key r = k) rs))) ks)"
    by (rule arg_cong[where f=sum_list], rule map_cong) auto
  also have "\<dots> = sum_list (map (\<lambda>k. if key r = k then f r else 0) ks)
                 + sum_list (map (\<lambda>k. sum_list (map f (filter (\<lambda>r. key r = k) rs))) ks)"
    by (simp add: sum_list_addf)
  also have "\<dots> = f r + sum_list (map f rs)"
    using Cons assms(1) by (simp add: sum_list_if_key)
  finally show ?case by simp
qed

lemma group_keys_order_id:
  "group_keys (map (\<lambda>r. Some (order_id r)) rs) = sort (remdups (map order_id rs))"
  by (simp add: group_keys_def dropna_map_Some)

lemma order_totals_eq:
  "order_totals rs = map (\<lambda>k. sum_list (map price (filter (\<lambda>r. order_id r = k) rs))) (sort (remdups (map order_id rs)))"
  by (simp add: order_totals_def groupby_def group_keys_order_id o_def)

lemma length_order_totals: "length (order_totals rs) = nunique (map order_id rs)"
  by (simp add: order_totals_eq nunique_def)

lemma sum_list_order_totals: "sum_list (order_totals rs) = sum_list (map price rs)"
  unfolding order_totals_eq
  by (rule sum_list_groups) auto

lemma nunique_card: "nunique xs = card (set xs)"
  by (simp add: nunique_def length_remdups_card_conv)

lemma nunique_0: "nunique xs = 0 \<longleftrightarrow> xs = []"
  by (simp add: nunique_def)

lemma sort_remdups_sorted_list_of_set: "sort (remdups xs) = sorted_list_of_set (set xs)"
  by (simp add: sorted_list_of_set_sort_remdups)

lemma per_order_price_filter:
  "per_order_price rs oid = sum_list (map price (filter (\<lambda>r. order_id r = oid) rs))"
  unfolding per_order_price_def by (induction rs) auto

lemma order_totals_spec:
  "order_totals rs = map (per_order_price rs) (sorted_list_of_set (order_id ` set rs))"
proof -
  have "sorted_list_of_set (order_id ` set rs) = sort (remdups (map order_id rs))"
    unfolding set_map[symmetric] by (rule sorted_list_of_set_sort_remdups)
  then show ?thesis
    by (simp add: order_totals_eq per_order_price_filter[abs_def])
qed

lemma mean_order_totals:
  "rs \<noteq> [] \<Longrightarrow> mean (order_totals rs) = Fin (sum_list (map price rs) / of_nat (card (order_id ` set rs)))"
proof -
  assume "rs \<noteq> []"
  have len: "length (order_totals rs) = card (order_id ` set rs)"
    by (simp add: length_order_totals nunique_card)
  have "card (order_id ` set rs) \<noteq> 0"
    using \<open>rs \<noteq> []\<close> by simp
  with len have "order_totals rs \<noteq> []" by auto
  then show ?thesis
    by (simp add: mean_def sum_list_order_totals len)
qed


text \<open>
  Claim C3.  The claim asks for a guarded division: on an empty sales view
  \<open>avg_items_per_order\<close> is to be reported as absent and nothing is to be raised.
  The code divides \<open>total_items\<close> by \<open>total_orders\<close> without a test, so on the empty
  view the call ends in ZeroDivisionError.
\<close>

theorem avg_items_empty_raises:
  "calculate_revenue_metrics \<lparr>columns = all_columns, rows = []\<rparr> None = Inl ZeroDivisionError"
  by (simp add: calculate_revenue_metrics_def all_columns_def nunique_def)

lemma revenue_metrics_InrD:
  assumes "calculate_revenue_metrics sd cmp = Inr m"
  shows "rows sd \<noteq> []"
    and "total_revenue m = sum_list (map price (rows sd))"
    and "average_order_value m = mean (order_totals (rows sd))"
    and "median_order_value m = median (order_totals (rows sd))"
    and "total_orders m = nunique (map order_id (rows sd))"
    and "total_items m = length (rows sd)"
    and "avg_items_per_order m = of_nat (total_items m) / of_nat (total_orders m)"
  using assms
  by (auto simp: calculate_revenue_metrics_def Let_def nunique_0 split: if_splits option.splits)

text \<open>
  Claim C2.  For every sales record set, what \<open>calculate_revenue_metrics\<close> returns
  (with or without comparison data) has \<open>total_revenue\<close> equal to the sum of
  \<open>price\<close> over all records (freight is not added); the order totals hold one
  value per distinct \<open>order_id\<close>, the price total of that order;
  \<open>average_order_value\<close> and \<open>median_order_value\<close> are the mean and the median of
  these per-order totals; \<open>total_orders\<close> is the number of distinct \<open>order_id\<close>
  values and \<open>total_items\<close> the number of records.  The function does return on
  every record set that has the two columns and at least one record.
\<close>

theorem revenue_metrics_values:
  "(calculate_revenue_metrics sd comparison = Inr m \<longrightarrow>
      total_revenue m = (\<Sum>r\<leftarrow>rows sd. price r)
    \<and> order_totals (rows sd)
        = map (per_order_price (rows sd)) (sorted_list_of_set (order_id ` set (rows sd)))
    \<and> average_order_value m
        = Fin ((\<Sum>oid\<in>order_id ` set (rows sd). per_order_price (rows sd) oid)
               / of_nat (card (order_id ` set (rows sd))))
    \<and> median_order_value m
        = median (map (per_order_price (rows sd)) (sorted_list_of_set (order_id ` set (rows sd))))
    \<and> total_orders m = card (order_id ` set (rows sd))
    \<and> total_items m = length (rows sd))
 \<and> (''price'' \<in> set (columns sd) \<and> ''order_id'' \<in> set (columns sd) \<and> rows sd \<noteq> [] \<longrightarrow>
      (\<exists>m'. calculate_revenue_metrics sd None = Inr m'))"
proof -
  let ?rs = "rows sd"
  let ?ids = "order_id ` set ?rs"
  have spec: "order_totals ?rs = map (per_order_price ?rs) (sorted_list_of_set ?ids)"
    by (rule order_totals_spec)
  have "(\<Sum>oid\<in>?ids. per_order_price ?rs oid) = sum_list (order_totals ?rs)"
    unfolding spec by (simp add: sum_list_distinct_conv_sum_set)
  then have tot: "(\<Sum>oid\<in>?ids. per_order_price ?rs oid) = sum_list (map price ?rs)"
    by (simp add: sum_list_order_totals)
  have vals: "total_revenue m = (\<Sum>r\<leftarrow>?rs. price r)
    \<and> order_totals ?rs = map (per_order_price ?rs) (sorted_list_of_set ?ids)
    \<and> average_order_value m
        = Fin ((\<Sum>oid\<in>?ids. per_order_price ?rs oid) / of_nat (card ?ids))
    \<and> median_order_value m = median (map (per_order_price ?rs) (sorted_list_of_set ?ids))
    \<and> total_orders m = card ?ids
    \<and> total_items m = length ?rs"
    if ret: "calculate_revenue_metrics sd comparison = Inr m"
  proof -
    note d = revenue_metrics_InrD[OF ret]
    have aov: "average_order_value m
        = Fin ((\<Sum>oid\<in>?ids. per_order_price ?rs oid) / of_nat (card ?ids))"
      unfolding tot d(3) by (rule mean_order_totals[OF d(1)])
    have med: "median_order_value m = median (map (per_order_price ?rs) (sorted_list_of_set ?ids))"
      unfolding d(4) by (simp only: spec)
    have ord: "total_orders m = card ?ids"
      unfolding d(5) by (simp add: nunique_card)
    from d(2) spec aov med ord d(6) show ?thesis by blast
  qed
  have ret: "\<exists>m'. calculate_revenue_metrics sd None = Inr m'"
    if "''price'' \<in> set (columns sd) \<and> ''order_id'' \<in> set (columns sd) \<and> rows sd \<noteq> []"
    using that by (simp add: calculate_revenue_metrics_def Let_def nunique_0)
  from vals ret show ?thesis by blast
qed

theorem revenue_metrics_values_witness:
  "\<exists>m. calculate_revenue_metrics
         \<lparr>columns = all_columns, rows = [item ''O1'' 1 100, item ''O1'' 2 20, item ''O2'' 1 50]\<rparr> None = Inr m
       \<and> total_revenue m = 170 \<and> average_order_value m = Fin 85 \<and> total_orders m = 2 \<and> total_items m = 3"
proof -
  let ?sd = "\<lparr>columns = all_columns, rows = [item ''O1'' 1 100, item ''O1'' 2 20, item ''O2'' 1 50]\<rparr>"
  have ids: "order_id ` set (rows ?sd) = {''O1'', ''O2''}"
    by (simp add: item_def)
  have c: "card {''O1'', ''O2''} = 2" by simp
  have s: "(\<Sum>oid\<in>{''O1'', ''O2''}. per_order_price (rows ?sd) oid) = 170"
    by (simp add: per_order_price_def item_def)
  have pre: "''price'' \<in> set (columns ?sd) \<and> ''order_id'' \<in> set (columns ?sd) \<and> rows ?sd \<noteq> []"
    by (simp add: all_columns_def)
  with revenue_metrics_values[of ?sd None] obtain m where
    m: "calculate_revenue_metrics ?sd None = Inr m"
    by blast
  with revenue_metrics_values[of ?sd None m] have
    v: "total_revenue m = (\<Sum>r\<leftarrow>rows ?sd. price r)"
      "average_order_value m
               = Fin ((\<Sum>oid\<in>order_id ` set (rows ?sd). per_order_price (rows ?sd) oid)
                      / of_nat (card (order_id ` set (rows ?sd))))"
      "total_orders m = card (order_id ` set (rows ?sd))"
      "total_items m = length (rows ?sd)"
    by blast+
  have "total_revenue m = 170" using v(1) by (simp add: item_def)
  moreover have "average_order_value m = Fin 85" using v(2) unfolding ids c s by simp
  moreover have "total_orders m = 2" using v(3) unfolding ids c .
  moreover have "total_items m = 3" using v(4) by simp
  ultimately show ?thesis using m by blast
qed

lemma revenue_metrics_growthD:
  assumes "calculate_revenue_metrics sd (Some cd) = Inr m"
  shows "revenue_growth_pct m = Some
           (if 0 < sum_list (map price (rows cd))
            then Some (Fin ((sum_list (map price (rows sd)) - sum_list (map price (rows cd)))
                             / sum_list (map price (rows cd)) * 100))
            else None)"
    and "order_growth_pct m = Some
           (if 0 < nunique (map order_id (rows cd))
            then Some (Fin ((of_nat (nunique (map order_id (rows sd)))
                              - of_nat (nunique (map order_id (rows cd))))
                             / of_nat (nunique (map order_id (rows cd))) * 100))
            else None)"
    and "aov_growth_pct m = Some
           (if fl_pos (mean (order_totals (rows cd)))
            then Some (fl_mul (fl_div (fl_sub (mean (order_totals (rows sd)))
                                 (mean (order_totals (rows cd))))
                          (mean (order_totals (rows cd)))) (Fin 100))
            else None)"
  using assms
  by (auto simp: calculate_revenue_metrics_def Let_def split: if_splits)

text \<open>
  Claim C4, as the code has it.  For every current record set with at least one
  record and every comparison record set (both with the \<open>price\<close> and \<open>order_id\<close>
  columns) \<open>calculate_revenue_metrics\<close> returns, whatever the baselines are.  In
  what it returns, each growth percentage is absent (None) when its baseline from the
  comparison set is at most zero or does not exist, and is
  \<open>(current - previous) / previous * 100\<close> otherwise.  The baselines of the revenue
  and order growth always exist; the baseline of the order-value growth is the mean
  order value of the comparison set, which does not exist (NaN) exactly when the
  comparison set is empty.
\<close>

theorem growth_pct_guarded:
  "(''price'' \<in> set (columns sd) \<and> ''order_id'' \<in> set (columns sd) \<and> rows sd \<noteq> []
      \<and> ''price'' \<in> set (columns cd) \<and> ''order_id'' \<in> set (columns cd)
      \<longrightarrow> (\<exists>m'. calculate_revenue_metrics sd (Some cd) = Inr m'))
 \<and> (calculate_revenue_metrics sd (Some cd) = Inr m \<longrightarrow>
       (let prev = (\<Sum>r\<leftarrow>rows cd. price r) in
            revenue_growth_pct m =
              Some (if prev \<le> 0 then None else Some (Fin ((total_revenue m - prev) / prev * 100))))
       \<and> (let prev = card (order_id ` set (rows cd)) in
            order_growth_pct m =
              Some (if prev \<le> 0 then None
                    else Some (Fin ((of_nat (total_orders m) - of_nat prev) / of_nat prev * 100))))
       \<and> (rows cd = [] \<longrightarrow> aov_growth_pct m = Some None)
       \<and> (rows cd \<noteq> [] \<longrightarrow>
            (\<exists>cur. average_order_value m = Fin cur \<and>
              (let prev = (\<Sum>r\<leftarrow>rows cd. price r) / of_nat (card (order_id ` set (rows cd))) in
               aov_growth_pct m =
                 Some (if prev \<le> 0 then None else Some (Fin ((cur - prev) / prev * 100)))))))"
proof -
  have ret: "\<exists>m'. calculate_revenue_metrics sd (Some cd) = Inr m'"
    if "''price'' \<in> set (columns sd) \<and> ''order_id'' \<in> set (columns sd) \<and> rows sd \<noteq> []
      \<and> ''price'' \<in> set (columns cd) \<and> ''order_id'' \<in> set (columns cd)"
    using that by (simp add: calculate_revenue_metrics_def Let_def nunique_0)
  have vals: "(let prev = (\<Sum>r\<leftarrow>rows cd. price r) in
            revenue_growth_pct m =
              Some (if prev \<le> 0 then None else Some (Fin ((total_revenue m - prev) / prev * 100))))
       \<and> (let prev = card (order_id ` set (rows cd)) in
            order_growth_pct m =
              Some (if prev \<le> 0 then None
                    else Some (Fin ((of_nat (total_orders m) - of_nat prev) / of_nat prev * 100))))
       \<and> (rows cd = [] \<longrightarrow> aov_growth_pct m = Some None)
       \<and> (rows cd \<noteq> [] \<longrightarrow>
            (\<exists>cur. average_order_value m = Fin cur \<and>
              (let prev = (\<Sum>r\<leftarrow>rows cd. price r) / of_nat (card (order_id ` set (rows cd))) in
               aov_growth_pct m =
                 Some (if prev \<le> 0 then None else Some (Fin ((cur - prev) / prev * 100))))))"
    if assms: "calculate_revenue_metrics sd (Some cd) = Inr m"
  proof -
    note d = revenue_metrics_InrD[OF assms]
    note g = revenue_metrics_growthD[OF assms]
    have rev: "let prev = (\<Sum>r\<leftarrow>rows cd. price r) in
              revenue_growth_pct m =
                Some (if prev \<le> 0 then None else Some (Fin ((total_revenue m - prev) / prev * 100)))"
      using g(1) d(2) by (simp add: Let_def not_less[symmetric])
    have ord: "let prev = card (order_id ` set (rows cd)) in
              order_growth_pct m =
                Some (if prev \<le> 0 then None
                      else Some (Fin ((of_nat (total_orders m) - of_nat prev) / of_nat prev * 100)))"
      using g(2) d(5) by (simp add: Let_def nunique_card)
    have aov0: "rows cd = [] \<longrightarrow> aov_growth_pct m = Some None"
      using g(3) by (simp add: order_totals_eq mean_def)
    have aov1: "\<exists>cur. average_order_value m = Fin cur \<and>
                (let prev = (\<Sum>r\<leftarrow>rows cd. price r) / of_nat (card (order_id ` set (rows cd))) in
                 aov_growth_pct m =
                   Some (if prev \<le> 0 then None else Some (Fin ((cur - prev) / prev * 100))))"
      if ne: "rows cd \<noteq> []"
    proof -
      have cur: "average_order_value m
          = Fin (sum_list (map price (rows sd)) / of_nat (card (order_id ` set (rows sd))))"
        using d(3) mean_order_totals[OF d(1)] by simp
      have prev: "mean (order_totals (rows cd))
          = Fin (sum_list (map price (rows cd)) / of_nat (card (order_id ` set (rows cd))))"
        by (rule mean_order_totals[OF ne])
      show ?thesis
        using g(3) cur d(3) unfolding prev
        by (auto simp: Let_def fl_sub_def not_less[symmetric])
    qed
    from rev ord aov0 aov1 show ?thesis by blast
  qed
  from ret vals show ?thesis by blast
qed

theorem growth_pct_guarded_witness:
  "\<exists>m0 m1 m2.
      calculate_revenue_metrics
        \<lparr>columns = all_columns, rows = [item ''O1'' 1 100, item ''O1'' 2 20, item ''O2'' 1 50]\<rparr>
        (Some \<lparr>columns = all_columns, rows = [item ''O9'' 1 0]\<rparr>) = Inr m0
    \<and> revenue_growth_pct m0 = Some None
    \<and> order_growth_pct m0 = Some (Some (Fin 100))
    \<and> aov_growth_pct m0 = Some None
    \<and> calculate_revenue_metrics
        \<lparr>columns = all_columns, rows = [item ''O1'' 1 100, item ''O1'' 2 20, item ''O2'' 1 50]\<rparr>
        (Some \<lparr>columns = all_columns, rows = []\<rparr>) = Inr m1
    \<and> revenue_growth_pct m1 = Some None
    \<and> order_growth_pct m1 = Some None
    \<and> aov_growth_pct m1 = Some None
    \<and> calculate_revenue_metrics
        \<lparr>columns = all_columns, rows = [item ''O1'' 1 100, item ''O1'' 2 20, item ''O2'' 1 50]\<rparr>
        (Some \<lparr>columns = all_columns, rows = [item ''O9'' 1 100]\<rparr>) = Inr m2
    \<and> revenue_growth_pct m2 = Some (Some (Fin 70))
    \<and> order_growth_pct m2 = Some (Some (Fin 100))
    \<and> aov_growth_pct m2 = Some (Some (Fin (- 15)))"
proof -
  let ?sd = "\<lparr>columns = all_columns, rows = [item ''O1'' 1 100, item ''O1'' 2 20, item ''O2'' 1 50]\<rparr>"
  let ?zero = "\<lparr>columns = all_columns, rows = [item ''O9'' 1 0]\<rparr>"
  let ?empty = "\<lparr>columns = all_columns, rows = []\<rparr>"
  let ?pos = "\<lparr>columns = all_columns, rows = [item ''O9'' 1 100]\<rparr>"
  have pre: "''price'' \<in> set (columns ?sd) \<and> ''order_id'' \<in> set (columns ?sd) \<and> rows ?sd \<noteq> []
      \<and> ''price'' \<in> set (columns cd) \<and> ''order_id'' \<in> set (columns cd)"
    if "columns cd = all_columns" for cd
    using that by (simp add: all_columns_def)
  have cur: "total_revenue m = 170 \<and> total_orders m = 2 \<and> average_order_value m = Fin 85"
    if "calculate_revenue_metrics ?sd (Some cd) = Inr m" for cd m
    using revenue_metrics_InrD(2,3,5)[OF that]
    by (simp add: item_def nunique_def order_totals_eq mean_def)
  from growth_pct_guarded[of ?sd ?zero] pre[of ?zero]
  obtain m0 where m0: "calculate_revenue_metrics ?sd (Some ?zero) = Inr m0"
    by auto
  have v0: "revenue_growth_pct m0 = Some None \<and> order_growth_pct m0 = Some (Some (Fin 100))
      \<and> aov_growth_pct m0 = Some None"
    using growth_pct_guarded[of ?sd ?zero m0] m0 cur[OF m0]
    by (simp add: item_def)
  from growth_pct_guarded[of ?sd ?empty] pre[of ?empty]
  obtain m1 where m1: "calculate_revenue_metrics ?sd (Some ?empty) = Inr m1"
    by auto
  have v1: "revenue_growth_pct m1 = Some None \<and> order_growth_pct m1 = Some None
      \<and> aov_growth_pct m1 = Some None"
    using growth_pct_guarded[of ?sd ?empty m1] m1
    by simp
  from growth_pct_guarded[of ?sd ?pos] pre[of ?pos]
  obtain m2 where m2: "calculate_revenue_metrics ?sd (Some ?pos) = Inr m2"
    by auto
  have v2: "revenue_growth_pct m2 = Some (Some (Fin 70)) \<and> order_growth_pct m2 = Some (Some (Fin 100))
      \<and> aov_growth_pct m2 = Some (Some (Fin (- 15)))"
    using growth_pct_guarded[of ?sd ?pos m2] m2 cur[OF m2]
    by (simp add: item_def)
  from m0 v0 m1 v1 m2 v2 show ?thesis by blast
qed

text \<open>
  The two-way split of the claim (absent when the baseline is at most zero, the
  formula otherwise) fails for the order-value growth on an empty comparison set:
  the baseline is NaN, which is not at most zero, and the formula would give NaN, but
  the code tests \<open>prev_aov > 0\<close> and reports the growth as absent.
\<close>

theorem growth_pct_nan_baseline_counterexample:
  "(case calculate_revenue_metrics
           \<lparr>columns = all_columns, rows = [item ''O1'' 1 100]\<rparr>
           (Some \<lparr>columns = all_columns, rows = []\<rparr>) of
      Inr m \<Rightarrow> aov_growth_pct m | Inl e \<Rightarrow> None) = Some None
 \<and> mean (order_totals []) = NaN
 \<and> \<not> fl_le0 (mean (order_totals []))
 \<and> growth_pct_spec (mean (order_totals [item ''O1'' 1 100])) (mean (order_totals [])) = Some NaN"
  by code_simp

section \<open>Missing columns, delivery bands\<close>

text \<open>
  Claim C5.  The failure modes differ: without its dimension column,
  \<open>calculate_monthly_trends\<close> (column \<open>month\<close>), \<open>analyze_product_performance\<close>
  (column \<open>product_category_name\<close>) and \<open>analyze_geographic_performance\<close> (column
  \<open>customer_state\<close>) raise ValueError, whereas \<open>analyze_customer_satisfaction\<close>
  (column \<open>review_score\<close>) and \<open>analyze_delivery_performance\<close> (column
  \<open>delivery_days\<close>) do not raise: for every sales record set without that column
  they return the dictionary \<open>{"error": reason}\<close>.
\<close>

theorem missing_column_failure_modes:
  "(''month'' \<notin> set (columns sd) \<longrightarrow>
      calculate_monthly_trends sd = Inl (ValueError ''Month column not found in sales data''))
 \<and> (''product_category_name'' \<notin> set (columns sd) \<longrightarrow>
      analyze_product_performance sd
        = Inl (ValueError ''Product category column not found in sales data''))
 \<and> (''customer_state'' \<notin> set (columns sd) \<longrightarrow>
      analyze_geographic_performance sd
        = Inl (ValueError ''Customer state column not found in sales data''))
 \<and> (''review_score'' \<notin> set (columns sd) \<longrightarrow>
      analyze_customer_satisfaction sd = Inr (ErrorDict ''Review score column not found''))
 \<and> (''delivery_days'' \<notin> set (columns sd) \<longrightarrow>
      analyze_delivery_performance sd = Inr (ErrorDict ''Delivery days column not found''))"
  by (simp add: calculate_monthly_trends_def analyze_product_performance_def
      analyze_geographic_performance_def analyze_customer_satisfaction_def
      analyze_delivery_performance_def)

theorem missing_column_failure_modes_witness:
  "calculate_monthly_trends \<lparr>columns = [''order_id'', ''price''], rows = [item ''O1'' 1 100]\<rparr>
      = Inl (ValueError ''Month column not found in sales data'')
 \<and> analyze_product_performance \<lparr>columns = [''order_id'', ''price''], rows = [item ''O1'' 1 100]\<rparr>
      = Inl (ValueError ''Product category column not found in sales data'')
 \<and> analyze_geographic_performance \<lparr>columns = [''order_id'', ''price''], rows = [item ''O1'' 1 100]\<rparr>
      = Inl (ValueError ''Customer state column not found in sales data'')
 \<and> analyze_customer_satisfaction \<lparr>columns = [''order_id'', ''price''], rows = [item ''O1'' 1 100]\<rparr>
      = Inr (ErrorDict ''Review score column not found'')
 \<and> analyze_delivery_performance \<lparr>columns = [''order_id'', ''price''], rows = [item ''O1'' 1 100]\<rparr>
      = Inr (ErrorDict ''Delivery days column not found'')"
  using missing_column_failure_modes
    [of "\<lparr>columns = [''order_id'', ''price''], rows = [item ''O1'' 1 100]\<rparr>"]
  by simp

lemma filter_drop_duplicates:
  "filter P (drop_duplicates xs) = drop_duplicates (filter P xs)"
proof (induction xs rule: drop_duplicates.induct)
  case 1
  then show ?case by simp
next
  case (2 x xs)
  have comm: "filter P (filter (\<lambda>y. y \<noteq> x) xs) = filter (\<lambda>y. y \<noteq> x) (filter P xs)"
    by (induction xs) auto
  show ?case
  proof (cases "P x")
    case True
    then show ?thesis using 2 comm by simp
  next
    case False
    then have "filter (\<lambda>y. y \<noteq> x) (filter P xs) = filter P xs"
      by (induction xs) auto
    with False 2 comm show ?thesis by simp
  qed
qed

lemma set_drop_duplicates: "set (drop_duplicates xs) = set xs"
  by (induction xs rule: drop_duplicates.induct) auto

lemma distinct_drop_duplicates: "distinct (drop_duplicates xs)"
  by (induction xs rule: drop_duplicates.induct) (auto simp: set_drop_duplicates)

lemma delivery_data_filter:
  "delivery_data_of (filter (\<lambda>r. delivery_days r \<noteq> None) rs) = delivery_data_of rs"
proof -
  have "map (\<lambda>r. (order_id r, delivery_days r, review_score r))
          (filter (\<lambda>r. delivery_days r \<noteq> None) rs)
      = filter (\<lambda>(oid, days, score). days \<noteq> None)
          (map (\<lambda>r. (order_id r, delivery_days r, review_score r)) rs)"
    by (induction rs) auto
  then show ?thesis
    by (simp add: delivery_data_of_def filter_drop_duplicates[symmetric])
qed

lemma delivery_labels:
  "set (map (\<lambda>(oid, days, score). categorize_delivery_speed days) (delivery_data_of rs))
     \<subseteq> {''1-3 days'', ''4-7 days'', ''8+ days''}"
  by (auto simp: delivery_data_of_def split: if_splits)

lemma categorize_cases:
  "categorize_delivery_speed (Some d) \<in> {''1-3 days'', ''4-7 days'', ''8+ days''}"
  by simp

lemma count_list_map_filter:
  "count_list (map f xs) k = length (filter (\<lambda>x. f x = k) xs)"
  by (induction xs) auto

lemma image_inter_nonempty: "k \<in> f ` A \<longleftrightarrow> {x. f x = k} \<inter> A \<noteq> {}"
  by auto

lemma distinct_delivery_data: "distinct (delivery_data_of rs)"
  by (simp add: delivery_data_of_def distinct_drop_duplicates)

lemma set_delivery_data:
  "set (delivery_data_of rs)
     = Set.filter (\<lambda>(oid, days, score). days \<noteq> None)
         ((\<lambda>r. (order_id r, delivery_days r, review_score r)) ` set rs)"
  by (auto simp: delivery_data_of_def set_drop_duplicates)

lemma delivery_distribution_band:
  assumes band: "\<And>d. categorize_delivery_speed (Some d) = k \<longleftrightarrow> in_band d"
  shows "value_counts_normalize
           (map (\<lambda>(oid, days, score). categorize_delivery_speed days) (delivery_data_of rs)) k
         = band_share rs in_band"
proof -
  let ?P = "(\<lambda>r. (order_id r, delivery_days r, review_score r)) ` set rs"
  let ?T = "Set.filter (\<lambda>(oid, days, score). days \<noteq> None) ?P"
  let ?B = "Set.filter (\<lambda>(oid, days, score). case days of None \<Rightarrow> False | Some d \<Rightarrow> in_band d) ?P"
  let ?D = "delivery_data_of rs"
  let ?f = "\<lambda>(oid, days, score). categorize_delivery_speed days"
  have lenD: "length ?D = card ?T"
    using distinct_delivery_data[of rs] set_delivery_data[of rs] by (metis distinct_card)
  have inB: "{x. ?f x = k} \<inter> set ?D = ?B"
  proof (rule set_eqI)
    fix x :: "string \<times> int option \<times> int option"
    obtain oid days score where x: "x = (oid, days, score)"
      by (cases x) auto
    show "x \<in> {x. ?f x = k} \<inter> set ?D \<longleftrightarrow> x \<in> ?B"
    proof (cases days)
      case None
      then show ?thesis by (simp add: x set_delivery_data)
    next
      case (Some d)
      then show ?thesis
        using band[of d]
        by (auto simp add: x set_delivery_data simp del: categorize_delivery_speed.simps)
    qed
  qed
  have cnt: "count_list (map ?f ?D) k = card ?B"
    unfolding count_list_map_filter
    using distinct_length_filter[OF distinct_delivery_data, of "\<lambda>x. ?f x = k" rs] inB
    by simp
  have "k \<in> set (map ?f ?D) \<longleftrightarrow> {x. ?f x = k} \<inter> set ?D \<noteq> {}"
    unfolding set_map by (rule image_inter_nonempty)
  then have mem: "k \<in> set (map ?f ?D) \<longleftrightarrow> ?B \<noteq> {}"
    unfolding inB .
  show ?thesis
    unfolding value_counts_normalize_def band_share_def Let_def
    using cnt mem lenD by simp
qed

lemma delivery_distribution_InrD:
  assumes "analyze_delivery_performance sd = Inr (Metrics m)"
  shows "delivery_category_distribution m
     = value_counts_normalize
         (map (\<lambda>(oid, days, score). categorize_delivery_speed days) (delivery_data_of (rows sd)))"
  using assms
  by (auto simp: analyze_delivery_performance_def Let_def o_def case_prod_unfold
      split: if_splits)

text \<open>
  Claim C7.  A delivery duration that is present falls in exactly one of three
  bands: at most 3 days is \<open>1-3 days\<close>, more than 3 and at most 7 is \<open>4-7 days\<close>,
  more than 7 is \<open>8+ days\<close>; so 3 maps to \<open>1-3 days\<close>, 4 and 7 to \<open>4-7 days\<close> and 8
  to \<open>8+ days\<close>.  \<open>analyze_delivery_performance\<close> returns whenever the three columns
  it reads are there, and the band distribution it returns is determined by the day
  values: the entry of a band is the number of distinct (order id, delivery days,
  score) records whose days lie in that band, divided by the number of such records
  whose days are present, and a band without a record has no entry.  The keys are
  among the three labels, \<open>Unknown\<close> is never one of them, and records without
  delivery days do not count: removing them from the sales data leaves the result
  unchanged.
\<close>

theorem delivery_bucketing:
  "categorize_delivery_speed (Some 3) = ''1-3 days''
 \<and> categorize_delivery_speed (Some 4) = ''4-7 days''
 \<and> categorize_delivery_speed (Some 7) = ''4-7 days''
 \<and> categorize_delivery_speed (Some 8) = ''8+ days''
 \<and> (categorize_delivery_speed (Some d) = ''1-3 days'' \<longleftrightarrow> d \<le> 3)
 \<and> (categorize_delivery_speed (Some d) = ''4-7 days'' \<longleftrightarrow> 3 < d \<and> d \<le> 7)
 \<and> (categorize_delivery_speed (Some d) = ''8+ days'' \<longleftrightarrow> 7 < d)
 \<and> (''delivery_days'' \<in> set (columns sd) \<and> ''order_id'' \<in> set (columns sd)
      \<and> ''review_score'' \<in> set (columns sd)
      \<longrightarrow> (\<exists>m'. analyze_delivery_performance sd = Inr (Metrics m')))
 \<and> (analyze_delivery_performance sd = Inr (Metrics m) \<longrightarrow>
       delivery_category_distribution m ''1-3 days'' = band_share (rows sd) (\<lambda>d. d \<le> 3)
     \<and> delivery_category_distribution m ''4-7 days'' = band_share (rows sd) (\<lambda>d. 3 < d \<and> d \<le> 7)
     \<and> delivery_category_distribution m ''8+ days'' = band_share (rows sd) (\<lambda>d. 7 < d)
     \<and> dom (delivery_category_distribution m) \<subseteq> {''1-3 days'', ''4-7 days'', ''8+ days''}
     \<and> delivery_category_distribution m ''Unknown'' = None)
 \<and> analyze_delivery_performance (sd\<lparr>rows := filter (\<lambda>r. delivery_days r \<noteq> None) (rows sd)\<rparr>)
     = analyze_delivery_performance sd"
proof -
  have bands: "categorize_delivery_speed (Some 3) = ''1-3 days''"
    "categorize_delivery_speed (Some 4) = ''4-7 days''"
    "categorize_delivery_speed (Some 7) = ''4-7 days''"
    "categorize_delivery_speed (Some 8) = ''8+ days''"
    "categorize_delivery_speed (Some d) = ''1-3 days'' \<longleftrightarrow> d \<le> 3"
    "categorize_delivery_speed (Some d) = ''4-7 days'' \<longleftrightarrow> 3 < d \<and> d \<le> 7"
    "categorize_delivery_speed (Some d) = ''8+ days'' \<longleftrightarrow> 7 < d"
    by simp_all
  have ret: "\<exists>m'. analyze_delivery_performance sd = Inr (Metrics m')"
    if "''delivery_days'' \<in> set (columns sd) \<and> ''order_id'' \<in> set (columns sd)
      \<and> ''review_score'' \<in> set (columns sd)"
    using that by (simp add: analyze_delivery_performance_def Let_def)
  have dist: "delivery_category_distribution m ''1-3 days'' = band_share (rows sd) (\<lambda>d. d \<le> 3)
     \<and> delivery_category_distribution m ''4-7 days'' = band_share (rows sd) (\<lambda>d. 3 < d \<and> d \<le> 7)
     \<and> delivery_category_distribution m ''8+ days'' = band_share (rows sd) (\<lambda>d. 7 < d)
     \<and> dom (delivery_category_distribution m) \<subseteq> {''1-3 days'', ''4-7 days'', ''8+ days''}
     \<and> delivery_category_distribution m ''Unknown'' = None"
    if "analyze_delivery_performance sd = Inr (Metrics m)"
  proof -
    let ?labels = "map (\<lambda>(oid, days, score). categorize_delivery_speed days)
                     (delivery_data_of (rows sd))"
    have m: "delivery_category_distribution m = value_counts_normalize ?labels"
      using that by (rule delivery_distribution_InrD)
    have b1: "delivery_category_distribution m ''1-3 days'' = band_share (rows sd) (\<lambda>d. d \<le> 3)"
      unfolding m by (rule delivery_distribution_band) simp
    have b2: "delivery_category_distribution m ''4-7 days''
        = band_share (rows sd) (\<lambda>d. 3 < d \<and> d \<le> 7)"
      unfolding m by (rule delivery_distribution_band) simp
    have b3: "delivery_category_distribution m ''8+ days'' = band_share (rows sd) (\<lambda>d. 7 < d)"
      unfolding m by (rule delivery_distribution_band) simp
    have "dom (value_counts_normalize ?labels) = set ?labels"
      by (auto simp: value_counts_normalize_def dom_def)
    with delivery_labels[of "rows sd"]
    have d: "dom (delivery_category_distribution m)
        \<subseteq> {''1-3 days'', ''4-7 days'', ''8+ days''}"
      unfolding m by simp
    then have "''Unknown'' \<notin> dom (delivery_category_distribution m)"
      by auto
    with d b1 b2 b3 show ?thesis by (simp add: domIff)
  qed
  have excl: "analyze_delivery_performance
                (sd\<lparr>rows := filter (\<lambda>r. delivery_days r \<noteq> None) (rows sd)\<rparr>)
      = analyze_delivery_performance sd"
    by (simp add: analyze_delivery_performance_def delivery_data_filter[unfolded not_None_eq])
  from bands ret dist excl show ?thesis by blast
qed

theorem delivery_bucketing_witness:
  "\<exists>m. analyze_delivery_performance
        \<lparr>columns = all_columns,
         rows = [delivered ''O1'' (Some 3), delivered ''O2'' (Some 4), delivered ''O3'' (Some 7),
                 delivered ''O4'' (Some 8), delivered ''O5'' None]\<rparr>
        = Inr (Metrics m)
     \<and> delivery_category_distribution m ''1-3 days'' = Some (1 / 4)
     \<and> delivery_category_distribution m ''4-7 days'' = Some (1 / 2)
     \<and> delivery_category_distribution m ''8+ days'' = Some (1 / 4)
     \<and> delivery_category_distribution m ''Unknown'' = None"
proof -
  let ?rows = "[delivered ''O1'' (Some 3), delivered ''O2'' (Some 4), delivered ''O3'' (Some 7),
                 delivered ''O4'' (Some 8), delivered ''O5'' None]"
  let ?sd = "\<lparr>columns = all_columns, rows = ?rows\<rparr>"
  have pre: "''delivery_days'' \<in> set (columns ?sd) \<and> ''order_id'' \<in> set (columns ?sd)
      \<and> ''review_score'' \<in> set (columns ?sd)"
    by (simp add: all_columns_def)
  with delivery_bucketing[of 3 ?sd] obtain m where
    m: "analyze_delivery_performance ?sd = Inr (Metrics m)"
    by blast
  have s1: "band_share ?rows (\<lambda>d. d \<le> 3) = Some (1 / 4)"
    by code_simp
  have s2: "band_share ?rows (\<lambda>d. 3 < d \<and> d \<le> 7) = Some (1 / 2)"
    by code_simp
  have s3: "band_share ?rows (\<lambda>d. 7 < d) = Some (1 / 4)"
    by code_simp
  from delivery_bucketing[of 3 ?sd m] m s1 s2 s3 show ?thesis
    by auto
qed

section \<open>Properties of the data summary\<close>

text \<open>
  Claim C10.  When no table has been cleaned, \<open>get_data_summary\<close> returns the
  marker \<open>{"error": "No data loaded yet"}\<close>.  When some table has been cleaned it
  returns a summary in which the order section is filled exactly when the orders
  table is there, the product section exactly when the products table is there and
  the customer section exactly when the customers table is there; the other keys
  are left out.
\<close>

theorem data_summary_sections:
  "(pd_orders pd = None \<and> pd_order_items pd = None \<and> pd_products pd = None
      \<and> pd_customers pd = None \<and> pd_reviews pd = None
      \<longrightarrow> get_data_summary pd = ErrorDict ''No data loaded yet'')
 \<and> (\<not> (pd_orders pd = None \<and> pd_order_items pd = None \<and> pd_products pd = None
      \<and> pd_customers pd = None \<and> pd_reviews pd = None)
      \<longrightarrow> (\<exists>s. get_data_summary pd = Metrics s
            \<and> sum_total_orders s = map_option length (pd_orders pd)
            \<and> sum_date_range s =
                map_option (\<lambda>orders. (series_min (map o_order_purchase_timestamp orders),
                                       series_max (map o_order_purchase_timestamp orders)))
                  (pd_orders pd)
            \<and> sum_years_available s =
                map_option (\<lambda>orders. sorted_list_of_set (o_year ` set orders)) (pd_orders pd)
            \<and> sum_order_statuses s =
                map_option (\<lambda>orders. value_counts (map o_order_status orders)) (pd_orders pd)
            \<and> sum_total_products s = map_option length (pd_products pd)
            \<and> sum_product_categories s =
                map_option (\<lambda>products. card {c. \<exists>p\<in>set products. p_product_category_name p = Some c})
                  (pd_products pd)
            \<and> sum_total_customers s = map_option length (pd_customers pd)
            \<and> sum_states s =
                map_option (\<lambda>customers. card (cu_customer_state ` set customers))
                  (pd_customers pd)))"
proof -
  have cats: "nunique (dropna (map p_product_category_name ps))
      = card {c. \<exists>p\<in>set ps. p_product_category_name p = Some c}" for ps
  proof -
    have "set (dropna xs) = {c. Some c \<in> set xs}" for xs :: "string option list"
      by (induction xs rule: dropna.induct) auto
    then have "set (dropna (map p_product_category_name ps))
        = {c. \<exists>p\<in>set ps. p_product_category_name p = Some c}"
      by (force simp: image_iff)
    then show ?thesis by (simp add: nunique_card)
  qed
  have years: "sort (remdups (map o_year os)) = sorted_list_of_set (o_year ` set os)" for os
    unfolding set_map[symmetric] by (simp only: sorted_list_of_set_sort_remdups)
  have states: "nunique (map cu_customer_state cs) = card (cu_customer_state ` set cs)" for cs
    by (simp add: nunique_card)
  show ?thesis
    by (cases "pd_orders pd"; cases "pd_products pd"; cases "pd_customers pd")
       (simp_all add: get_data_summary_def empty_summary_def Let_def cats years states)
qed

theorem data_summary_sections_witness:
  "get_data_summary \<lparr>pd_orders = None, pd_order_items = None, pd_products = None,
       pd_customers = None, pd_reviews = None\<rparr> = ErrorDict ''No data loaded yet''
 \<and> (\<exists>s. get_data_summary \<lparr>pd_orders = None, pd_order_items = None,
            pd_products = Some [\<lparr>p_product_id = ''P1'', p_product_category_name = Some ''toys''\<rparr>,
                               \<lparr>p_product_id = ''P2'', p_product_category_name = None\<rparr>],
            pd_customers = None, pd_reviews = None\<rparr> = Metrics s
       \<and> sum_total_orders s = None \<and> sum_date_range s = None \<and> sum_years_available s = None
       \<and> sum_order_statuses s = None \<and> sum_total_products s = Some 2
       \<and> sum_total_customers s = None \<and> sum_states s = None)"
  using data_summary_sections[of "\<lparr>pd_orders = None, pd_order_items = None, pd_products = None,
       pd_customers = None, pd_reviews = None\<rparr>"]
    data_summary_sections[of "\<lparr>pd_orders = None, pd_order_items = None,
            pd_products = Some [\<lparr>p_product_id = ''P1'', p_product_category_name = Some ''toys''\<rparr>,
                               \<lparr>p_product_id = ''P2'', p_product_category_name = None\<rparr>],
            pd_customers = None, pd_reviews = None\<rparr>"]
  by auto

section \<open>Satisfaction: de-duplication of review pairs\<close>

lemma set_dropna: "set (dropna xs) = {x. Some x \<in> set xs}"
  by (induction xs rule: dropna.induct) auto

lemma drop_duplicates_remove_later:
  "r \<in> set xs \<Longrightarrow> drop_duplicates (xs @ r # ys) = drop_duplicates (xs @ ys)"
proof (induction xs arbitrary: ys rule: length_induct)
  case (1 xs)
  then obtain x xs' where xs: "xs = x # xs'"
    by (cases xs) auto
  show ?case
  proof (cases "r = x")
    case True
    then show ?thesis by (simp add: xs)
  next
    case False
    with 1(2) xs have mem: "r \<in> set (filter (\<lambda>y. y \<noteq> x) xs')"
      by auto
    have len: "length (filter (\<lambda>y. y \<noteq> x) xs') < length xs"
      by (simp add: xs le_imp_less_Suc)
    from 1(1) len mem
    have "drop_duplicates (filter (\<lambda>y. y \<noteq> x) xs' @ r # filter (\<lambda>y. y \<noteq> x) ys)
        = drop_duplicates (filter (\<lambda>y. y \<noteq> x) xs' @ filter (\<lambda>y. y \<noteq> x) ys)"
      by blast
    with False show ?thesis by (simp add: xs)
  qed
qed

lemma set_present_pairs: "set (present_pairs ps) = {(oid, v). (oid, Some v) \<in> set ps}"
  by (induction ps rule: present_pairs.induct) auto

lemma snd_present_pairs: "map snd (present_pairs ps) = dropna (map snd ps)"
  by (induction ps rule: present_pairs.induct) auto

lemma distinct_present_pairs: "distinct ps \<Longrightarrow> distinct (present_pairs ps)"
  by (induction ps rule: present_pairs.induct) (auto simp: set_present_pairs)

lemma mean_scores_distinct:
  fixes ps :: "(string \<times> int option) list"
  assumes "distinct ps"
  shows "mean (map of_int (dropna (map snd ps)))
    = (let S = {(oid, v). (oid, Some v) \<in> set ps}
       in if S = {} then NaN
          else Fin ((\<Sum>(oid, v)\<in>S. of_int v) / of_nat (card S)))"
proof -
  let ?sl = "present_pairs ps"
  have d: "distinct ?sl" using assms by (rule distinct_present_pairs)
  have s: "set ?sl = {(oid, v). (oid, Some v) \<in> set ps}" by (rule set_present_pairs)
  have sc: "map of_int (dropna (map snd ps)) = map (\<lambda>(oid, v). rat_of_int v) ?sl"
    by (simp add: snd_present_pairs[symmetric] case_prod_unfold)
  have sum: "sum_list (map (\<lambda>(oid, v). rat_of_int v) ?sl) = (\<Sum>(oid, v)\<in>set ?sl. of_int v)"
    using d by (rule sum_list_distinct_conv_sum_set)
  have len: "length ?sl = card (set ?sl)"
    using d by (simp add: distinct_card)
  have emp: "?sl = [] \<longleftrightarrow> set ?sl = {}" by simp
  show ?thesis
    unfolding sc mean_def Let_def s[symmetric] sum
    using emp by (simp add: len)
qed

lemma satisfaction_InrD:
  assumes "analyze_customer_satisfaction sd = Inr (Metrics m)"
  shows "total_reviews m
           = length (drop_duplicates (map (\<lambda>r. (order_id r, review_score r)) (rows sd)))"
    and "avg_review_score m
           = mean (map of_int (dropna (map snd
               (drop_duplicates (map (\<lambda>r. (order_id r, review_score r)) (rows sd))))))"
    and "high_satisfaction_pct m
           = of_nat (length (filter (\<lambda>(oid, s). case s of None \<Rightarrow> False | Some v \<Rightarrow> 4 \<le> v)
               (drop_duplicates (map (\<lambda>r. (order_id r, review_score r)) (rows sd)))))
             / of_nat (length (drop_duplicates
                 (map (\<lambda>r. (order_id r, review_score r)) (rows sd)))) * 100"
  using assms
  by (auto simp: analyze_customer_satisfaction_def Let_def split: if_splits)

text \<open>
  What the code computes: \<open>total_reviews\<close> is the number of distinct (order id,
  score) pairs of the sales records, the mean is taken over the distinct pairs that
  carry a score, and the high-satisfaction percentage counts the distinct pairs with
  a score of at least 4 among all distinct pairs.  A record that repeats the order id
  and the score of an earlier record (another item row of the same order) changes
  nothing in the result.
\<close>

lemma satisfaction_distinct_pairs:
  "(analyze_customer_satisfaction sd = Inr (Metrics m) \<longrightarrow>
      (let P = (\<lambda>r. (order_id r, review_score r)) ` set (rows sd);
           S = {(oid, v). (oid, Some v) \<in> P}
       in total_reviews m = card P
        \<and> avg_review_score m
            = (if S = {} then NaN else Fin ((\<Sum>(oid, v)\<in>S. of_int v) / of_nat (card S)))
        \<and> high_satisfaction_pct m
            = of_nat (card {(oid, s). (oid, s) \<in> P \<and> (\<exists>v. s = Some v \<and> 4 \<le> v)})
              / of_nat (card P) * 100))
 \<and> ((\<exists>a\<in>set xs. order_id a = order_id r \<and> review_score a = review_score r) \<longrightarrow>
       analyze_customer_satisfaction \<lparr>columns = cols, rows = xs @ r # ys\<rparr>
     = analyze_customer_satisfaction \<lparr>columns = cols, rows = xs @ ys\<rparr>)"
proof -
  let ?pair = "\<lambda>r. (order_id r, review_score r)"
  have first: "let P = ?pair ` set (rows sd);
           S = {(oid, v). (oid, Some v) \<in> P}
       in total_reviews m = card P
        \<and> avg_review_score m
            = (if S = {} then NaN else Fin ((\<Sum>(oid, v)\<in>S. of_int v) / of_nat (card S)))
        \<and> high_satisfaction_pct m
            = of_nat (card {(oid, s). (oid, s) \<in> P \<and> (\<exists>v. s = Some v \<and> 4 \<le> v)})
              / of_nat (card P) * 100"
    if ret: "analyze_customer_satisfaction sd = Inr (Metrics m)"
  proof -
    let ?reviews = "drop_duplicates (map ?pair (rows sd))"
    note d = satisfaction_InrD[OF ret]
    have dist: "distinct ?reviews" by (rule distinct_drop_duplicates)
    have set: "set ?reviews = ?pair ` set (rows sd)"
      by (simp add: set_drop_duplicates)
    have len: "length ?reviews = card (?pair ` set (rows sd))"
      using dist set by (metis distinct_card)
    have high: "length (filter (\<lambda>(oid, s). case s of None \<Rightarrow> False | Some v \<Rightarrow> 4 \<le> v) ?reviews)
        = card {(oid, s). (oid, s) \<in> ?pair ` set (rows sd) \<and> (\<exists>v. s = Some v \<and> 4 \<le> v)}"
    proof -
      have "{x. (case x of (oid, s) \<Rightarrow> (case s of None \<Rightarrow> False | Some v \<Rightarrow> 4 \<le> v))}
            \<inter> set ?reviews
          = {(oid, s). (oid, s) \<in> ?pair ` set (rows sd) \<and> (\<exists>v. s = Some v \<and> 4 \<le> v)}"
        unfolding set by (auto split: option.splits)
      then show ?thesis
        using distinct_length_filter[OF dist] by simp
    qed
    have avg: "avg_review_score m
        = (let S = {(oid, v). (oid, Some v) \<in> ?pair ` set (rows sd)}
           in if S = {} then NaN else Fin ((\<Sum>(oid, v)\<in>S. of_int v) / of_nat (card S)))"
      unfolding d(2) mean_scores_distinct[OF dist] set ..
    show ?thesis
      unfolding Let_def
      using d(1) d(3) avg len high by (simp add: Let_def)
  qed
  have second: "analyze_customer_satisfaction \<lparr>columns = cols, rows = xs @ r # ys\<rparr>
     = analyze_customer_satisfaction \<lparr>columns = cols, rows = xs @ ys\<rparr>"
    if "\<exists>a\<in>set xs. order_id a = order_id r \<and> review_score a = review_score r"
  proof -
    from that obtain a where a: "a \<in> set xs" "order_id a = order_id r"
        "review_score a = review_score r"
      by blast
    have "?pair a \<in> ?pair ` set xs"
      using a(1) by (rule imageI)
    then have "?pair r \<in> set (map ?pair xs)"
      using a(2,3) by simp
    then have "drop_duplicates (map ?pair xs @ ?pair r # map ?pair ys)
        = drop_duplicates (map ?pair xs @ map ?pair ys)"
      by (rule drop_duplicates_remove_later)
    then show ?thesis
      by (simp add: analyze_customer_satisfaction_def)
  qed
  from first second show ?thesis by blast
qed

text \<open>
  Claim C6.  The claim asks for one (order id, score) pair per order before the
  scores are aggregated, as the comment in the source does (\<open>Get unique orders with
  their review scores\<close>).  The code drops duplicate (order id, score) pairs, which
  leaves an order with two reviews of different scores in the data once per score.
  For the example tables, where order \<open>O1\<close> has the reviews 5 and 3 and order \<open>O2\<close>
  the review 4, the sales view has 2 orders, but \<open>total_reviews\<close> is 3, the mean
  score is 4 and the high-satisfaction percentage is two thirds of the pairs.
\<close>

theorem satisfaction_counts_order_per_score:
  "(case create_sales_dataset example_tables_two_reviews (Some 2023) None (Some ''delivered'') of
      Inl e \<Rightarrow> None
    | Inr view \<Rightarrow>
        (case analyze_customer_satisfaction view of
           Inr (Metrics m) \<Rightarrow>
             Some (nunique (map order_id (rows view)), total_reviews m,
                   avg_review_score m, high_satisfaction_pct m)
         | _ \<Rightarrow> None))
   = Some (2, 3, Fin 4, 200 / 3)"
  by code_simp

section \<open>Revenue shares by category and by state\<close>

lemma fl_sum_Fin_aux: "foldl fl_add (Fin a) (map Fin xs) = Fin (a + sum_list xs)"
  by (induction xs arbitrary: a) (simp_all add: add.assoc)

lemma fl_sum_Fin: "fl_sum (map Fin xs) = Fin (sum_list xs)"
  by (simp add: fl_sum_def fl_sum_Fin_aux)

lemma sum_list_sort_key:
  fixes h :: "'a \<Rightarrow> rat" and f :: "'a \<Rightarrow> 'k::linorder"
  shows "sum_list (map h (sort_key f xs)) = sum_list (map h xs)"
proof -
  have "sum_list (map h (sort_key f xs)) = sum_mset (image_mset h (mset (sort_key f xs)))"
    by (metis mset_map sum_mset_sum_list)
  also have "\<dots> = sum_mset (image_mset h (mset xs))"
    by simp
  also have "\<dots> = sum_list (map h xs)"
    by (metis mset_map sum_mset_sum_list)
  finally show ?thesis .
qed

lemma sum_list_sort_values_desc:
  fixes h :: "'a \<Rightarrow> rat"
  shows "sum_list (map h (sort_values_desc f xs)) = sum_list (map h xs)"
  by (simp add: sort_values_desc_def rev_map[symmetric] sum_list_sort_key)

lemma set_sort_values_desc: "set (sort_values_desc f xs) = set xs"
  by (simp add: sort_values_desc_def)

lemma sum_list_share:
  fixes a :: "'a \<Rightarrow> rat"
  shows "sum_list (map (\<lambda>r. a r / t * 100) xs) = sum_list (map a xs) / t * 100"
  by (induction xs) (simp_all add: add_divide_distrib distrib_right)

lemma shares_sum_100:
  fixes rev :: "'a \<Rightarrow> rat" and share :: "'a \<Rightarrow> fl"
  assumes "\<forall>r\<in>set xs. share r = fl_mul (fl_div (Fin (rev r)) (Fin t)) (Fin 100)"
    and "sum_list (map rev xs) = t" and "t \<noteq> 0"
  shows "fl_sum (map share xs) = Fin 100"
proof -
  have "map share xs = map Fin (map (\<lambda>r. rev r / t * 100) xs)"
    using assms(1,3) by simp
  then have "fl_sum (map share xs) = Fin (sum_list (map (\<lambda>r. rev r / t * 100) xs))"
    by (simp only: fl_sum_Fin)
  also have "\<dots> = Fin (t / t * 100)"
    by (simp only: sum_list_share assms(2))
  finally show ?thesis using assms(3) by simp
qed

lemma set_group_keys: "set (group_keys ks) = {k. Some k \<in> set ks}"
  by (simp add: group_keys_def set_dropna)

lemma distinct_group_keys: "distinct (group_keys ks)"
  by (simp add: group_keys_def)

lemma sum_list_group_sums:
  fixes f :: "'r \<Rightarrow> rat" and key :: "'r \<Rightarrow> ('k::linorder) option"
  shows "sum_list (map (\<lambda>(k, g). sum_list (map f g)) (groupby key rs))
       = sum_list (map f (filter (\<lambda>r. key r \<noteq> None) rs))"
proof -
  let ?rs = "filter (\<lambda>r. key r \<noteq> None) rs"
  have flt: "filter (\<lambda>r. key r = Some k) rs = filter (\<lambda>r. the (key r) = k) ?rs" for k
    by (induction rs) auto
  have sub: "(\<lambda>r. the (key r)) ` set ?rs \<subseteq> set (group_keys (map key rs))"
    by (auto simp: set_group_keys image_iff intro: bexI[rotated] sym)
  have "sum_list (map (\<lambda>(k, g). sum_list (map f g)) (groupby key rs))
      = sum_list (map (\<lambda>k. sum_list (map f (filter (\<lambda>r. the (key r) = k) ?rs)))
          (group_keys (map key rs)))"
    by (simp add: groupby_def o_def flt)
  also have "\<dots> = sum_list (map f ?rs)"
    using distinct_group_keys sub by (rule sum_list_groups)
  finally show ?thesis .
qed

lemma product_performance_InrD:
  assumes "analyze_product_performance sd = Inr cm"
  shows "\<exists>ms. cm = sort_values_desc c_revenue ms
          \<and> sum_list (map c_revenue ms)
              = sum_list (map price (filter (\<lambda>r. product_category_name r \<noteq> None) (rows sd)))
          \<and> (\<forall>r\<in>set ms. c_revenue_share_pct r
                = fl_mul (fl_div (Fin (c_revenue r)) (Fin (sum_list (map c_revenue ms)))) (Fin 100))"
proof -
  let ?groups = "groupby product_category_name (rows sd)"
  let ?total = "sum_list (map (\<lambda>(k, g). sum_list (map price g)) ?groups)"
  let ?ms = "map (\<lambda>(k, g). \<lparr> c_category = k, c_revenue = sum_list (map price g),
                 c_orders = nunique (map order_id g), c_items_sold = length g,
                 c_revenue_share_pct =
                   fl_mul (fl_div (Fin (sum_list (map price g))) (Fin ?total)) (Fin 100),
                 c_avg_order_value =
                   fl_div (Fin (sum_list (map price g))) (Fin (of_nat (nunique (map order_id g)))) \<rparr>)
              ?groups"
  have cm: "cm = sort_values_desc c_revenue ?ms"
    using assms by (simp add: analyze_product_performance_def Let_def split: if_splits)
  have rev: "map c_revenue ?ms = map (\<lambda>(k, g). sum_list (map price g)) ?groups"
    by (simp add: case_prod_unfold)
  have tot: "sum_list (map c_revenue ?ms) = ?total"
    by (simp only: rev)
  have sh: "\<forall>r\<in>set ?ms. c_revenue_share_pct r
                = fl_mul (fl_div (Fin (c_revenue r)) (Fin ?total)) (Fin 100)"
    by (auto simp: case_prod_unfold)
  have sh2: "\<forall>r\<in>set ?ms. c_revenue_share_pct r
      = fl_mul (fl_div (Fin (c_revenue r)) (Fin (sum_list (map c_revenue ?ms)))) (Fin 100)"
    using sh by (simp only: tot)
  have tot2: "sum_list (map c_revenue ?ms)
      = sum_list (map price (filter (\<lambda>r. product_category_name r \<noteq> None) (rows sd)))"
    by (rule trans[OF tot sum_list_group_sums])
  from cm tot2 sh2 show ?thesis by blast
qed

lemma geographic_performance_InrD:
  assumes "analyze_geographic_performance sd = Inr sm"
  shows "\<exists>ms. sm = sort_values_desc s_revenue ms
          \<and> sum_list (map s_revenue ms)
              = sum_list (map price (filter (\<lambda>r. customer_state r \<noteq> None) (rows sd)))
          \<and> (\<forall>r\<in>set ms. s_revenue_share_pct r
                = fl_mul (fl_div (Fin (s_revenue r)) (Fin (sum_list (map s_revenue ms)))) (Fin 100))"
proof -
  let ?groups = "groupby customer_state (rows sd)"
  let ?total = "sum_list (map (\<lambda>(k, g). sum_list (map price g)) ?groups)"
  let ?ms = "map (\<lambda>(k, g). \<lparr> s_state = k, s_revenue = sum_list (map price g),
                 s_orders = nunique (map order_id g),
                 s_customers = nunique (dropna (map customer_id g)),
                 s_revenue_share_pct =
                   fl_mul (fl_div (Fin (sum_list (map price g))) (Fin ?total)) (Fin 100),
                 s_avg_order_value =
                   fl_div (Fin (sum_list (map price g))) (Fin (of_nat (nunique (map order_id g)))) \<rparr>)
              ?groups"
  have sm: "sm = sort_values_desc s_revenue ?ms"
    using assms by (simp add: analyze_geographic_performance_def Let_def split: if_splits)
  have rev: "map s_revenue ?ms = map (\<lambda>(k, g). sum_list (map price g)) ?groups"
    by (simp add: case_prod_unfold)
  have tot: "sum_list (map s_revenue ?ms) = ?total"
    by (simp only: rev)
  have sh: "\<forall>r\<in>set ?ms. s_revenue_share_pct r
                = fl_mul (fl_div (Fin (s_revenue r)) (Fin ?total)) (Fin 100)"
    by (auto simp: case_prod_unfold)
  have sh2: "\<forall>r\<in>set ?ms. s_revenue_share_pct r
      = fl_mul (fl_div (Fin (s_revenue r)) (Fin (sum_list (map s_revenue ?ms)))) (Fin 100)"
    using sh by (simp only: tot)
  have tot2: "sum_list (map s_revenue ?ms)
      = sum_list (map price (filter (\<lambda>r. customer_state r \<noteq> None) (rows sd)))"
    by (rule trans[OF tot sum_list_group_sums])
  from sm tot2 sh2 show ?thesis by blast
qed

text \<open>
  Claim C9, as the code has it.  When \<open>analyze_product_performance\<close> succeeds, the
  group revenues add up to the price total of the records that have a category, and
  whenever this total is not zero the \<open>revenue_share_pct\<close> values of all category
  groups sum to 100.  The same holds for \<open>analyze_geographic_performance\<close> and the
  state groups.  (In exact arithmetic the sum is exactly 100.)
\<close>

theorem revenue_shares_sum:
  "(analyze_product_performance sd = Inr cm \<longrightarrow>
      sum_list (map c_revenue cm)
        = (\<Sum>r\<leftarrow>filter (\<lambda>r. product_category_name r \<noteq> None) (rows sd). price r)
    \<and> (sum_list (map c_revenue cm) \<noteq> 0 \<longrightarrow> fl_sum (map c_revenue_share_pct cm) = Fin 100))
 \<and> (analyze_geographic_performance sd = Inr sm \<longrightarrow>
      sum_list (map s_revenue sm)
        = (\<Sum>r\<leftarrow>filter (\<lambda>r. customer_state r \<noteq> None) (rows sd). price r)
    \<and> (sum_list (map s_revenue sm) \<noteq> 0 \<longrightarrow> fl_sum (map s_revenue_share_pct sm) = Fin 100))"
proof -
  have prod: "sum_list (map c_revenue cm)
        = (\<Sum>r\<leftarrow>filter (\<lambda>r. product_category_name r \<noteq> None) (rows sd). price r)
    \<and> (sum_list (map c_revenue cm) \<noteq> 0 \<longrightarrow> fl_sum (map c_revenue_share_pct cm) = Fin 100)"
    if "analyze_product_performance sd = Inr cm"
  proof -
    from product_performance_InrD[OF that] obtain ms where
      cm: "cm = sort_values_desc c_revenue ms"
      and tot: "sum_list (map c_revenue ms)
              = sum_list (map price (filter (\<lambda>r. product_category_name r \<noteq> None) (rows sd)))"
      and sh: "\<forall>r\<in>set ms. c_revenue_share_pct r
                = fl_mul (fl_div (Fin (c_revenue r)) (Fin (sum_list (map c_revenue ms)))) (Fin 100)"
      by blast
    have same: "sum_list (map c_revenue cm) = sum_list (map c_revenue ms)"
      unfolding cm by (rule sum_list_sort_values_desc)
    have sh': "\<forall>r\<in>set cm. c_revenue_share_pct r
                = fl_mul (fl_div (Fin (c_revenue r)) (Fin (sum_list (map c_revenue ms)))) (Fin 100)"
      using sh unfolding cm by (simp add: set_sort_values_desc)
    have "fl_sum (map c_revenue_share_pct cm) = Fin 100" if "sum_list (map c_revenue cm) \<noteq> 0"
      using sh' same that[unfolded same] by (rule shares_sum_100)
    with same tot show ?thesis by simp
  qed
  have geo: "sum_list (map s_revenue sm)
        = (\<Sum>r\<leftarrow>filter (\<lambda>r. customer_state r \<noteq> None) (rows sd). price r)
    \<and> (sum_list (map s_revenue sm) \<noteq> 0 \<longrightarrow> fl_sum (map s_revenue_share_pct sm) = Fin 100)"
    if "analyze_geographic_performance sd = Inr sm"
  proof -
    from geographic_performance_InrD[OF that] obtain ms where
      sm: "sm = sort_values_desc s_revenue ms"
      and tot: "sum_list (map s_revenue ms)
              = sum_list (map price (filter (\<lambda>r. customer_state r \<noteq> None) (rows sd)))"
      and sh: "\<forall>r\<in>set ms. s_revenue_share_pct r
                = fl_mul (fl_div (Fin (s_revenue r)) (Fin (sum_list (map s_revenue ms)))) (Fin 100)"
      by blast
    have same: "sum_list (map s_revenue sm) = sum_list (map s_revenue ms)"
      unfolding sm by (rule sum_list_sort_values_desc)
    have sh': "\<forall>r\<in>set sm. s_revenue_share_pct r
                = fl_mul (fl_div (Fin (s_revenue r)) (Fin (sum_list (map s_revenue ms)))) (Fin 100)"
      using sh unfolding sm by (simp add: set_sort_values_desc)
    have "fl_sum (map s_revenue_share_pct sm) = Fin 100" if "sum_list (map s_revenue sm) \<noteq> 0"
      using sh' same that[unfolded same] by (rule shares_sum_100)
    with same tot show ?thesis by simp
  qed
  from prod geo show ?thesis by blast
qed

theorem revenue_shares_sum_witness:
  "\<exists>cm sm.
     analyze_product_performance \<lparr>columns = all_columns,
       rows = [sold ''O1'' 100 (Some ''toys'') (Some ''SP''), sold ''O2'' 50 (Some ''books'') (Some ''RJ''),
               sold ''O3'' 20 (Some ''toys'') (Some ''SP''), sold ''O4'' 30 None None]\<rparr> = Inr cm
   \<and> analyze_geographic_performance \<lparr>columns = all_columns,
       rows = [sold ''O1'' 100 (Some ''toys'') (Some ''SP''), sold ''O2'' 50 (Some ''books'') (Some ''RJ''),
               sold ''O3'' 20 (Some ''toys'') (Some ''SP''), sold ''O4'' 30 None None]\<rparr> = Inr sm
   \<and> sum_list (map c_revenue cm) = 170 \<and> fl_sum (map c_revenue_share_pct cm) = Fin 100
   \<and> sum_list (map s_revenue sm) = 170 \<and> fl_sum (map s_revenue_share_pct sm) = Fin 100"
proof -
  let ?sd = "\<lparr>columns = all_columns,
       rows = [sold ''O1'' 100 (Some ''toys'') (Some ''SP''), sold ''O2'' 50 (Some ''books'') (Some ''RJ''),
               sold ''O3'' 20 (Some ''toys'') (Some ''SP''), sold ''O4'' 30 None None]\<rparr>"
  obtain cm where cm: "analyze_product_performance ?sd = Inr cm"
    by (simp add: analyze_product_performance_def all_columns_def Let_def)
  obtain sm where sm: "analyze_geographic_performance ?sd = Inr sm"
    by (simp add: analyze_geographic_performance_def all_columns_def Let_def)
  note t = revenue_shares_sum[of ?sd cm sm]
  have c: "sum_list (map c_revenue cm) = 170"
    using t cm by (simp add: sold_def item_def)
  have s: "sum_list (map s_revenue sm) = 170"
    using t sm by (simp add: sold_def item_def)
  from t cm sm c s show ?thesis by auto
qed

text \<open>
  Without the condition the statement fails: for a sales view whose only record has
  the price 0 both analyses succeed, the share of the single group is \<open>0/0\<close>, and
  the shares sum to NaN, not to 100.
\<close>

theorem revenue_shares_zero_total_counterexample:
  "(case analyze_product_performance
           \<lparr>columns = all_columns, rows = [sold ''O1'' 0 (Some ''toys'') (Some ''SP'')]\<rparr> of
      Inr cm \<Rightarrow> Some (fl_sum (map c_revenue_share_pct cm)) | Inl e \<Rightarrow> None) = Some NaN
 \<and> (case analyze_geographic_performance
           \<lparr>columns = all_columns, rows = [sold ''O1'' 0 (Some ''toys'') (Some ''SP'')]\<rparr> of
      Inr sm \<Rightarrow> Some (fl_sum (map s_revenue_share_pct sm)) | Inl e \<Rightarrow> None) = Some NaN"
  by code_simp

section \<open>Properties of the monthly trends\<close>










section \<open>Left joins of the sales view\<close>

lemma join_count_pos: "1 \<le> join_count on right l"
  by (simp add: join_count_def)

lemma merge_left_Nil: "merge_left on c [] rs = []"
  by (simp add: merge_left_def)

lemma merge_left_Cons:
  "merge_left on c (l # ls) rs =
     (case filter (on l) rs of [] \<Rightarrow> [c l None] | ms \<Rightarrow> map (\<lambda>r. c l (Some r)) ms)
     @ merge_left on c ls rs"
  by (simp add: merge_left_def)

lemma rows_for_replicate:
  assumes "\<And>x. k' (c l x) = k l"
  shows "map k' (case filter (on l) rs of [] \<Rightarrow> [c l None] | ms \<Rightarrow> map (\<lambda>r. c l (Some r)) ms)
       = replicate (join_count on rs l) (k l)"
proof (cases "filter (on l) rs")
  case Nil
  then show ?thesis by (simp add: join_count_def assms)
next
  case (Cons m ms)
  have "map k' (map (\<lambda>r. c l (Some r)) (m # ms)) = replicate (length (m # ms)) (k l)"
    by (simp add: assms o_def map_replicate_const)
  with Cons show ?thesis by (simp add: join_count_def)
qed

lemma merge_left_map:
  assumes "\<And>l x. k' (c l x) = k l"
  shows "map k' (merge_left on c ls rs)
       = concat (map (\<lambda>l. replicate (join_count on rs l) (k l)) ls)"
proof (induction ls)
  case Nil
  then show ?case by (simp add: merge_left_Nil)
next
  case (Cons l ls)
  have "map k' (case filter (on l) rs of [] \<Rightarrow> [c l None] | ms \<Rightarrow> map (\<lambda>r. c l (Some r)) ms)
       = replicate (join_count on rs l) (k l)"
    using assms by (rule rows_for_replicate)
  with Cons show ?case by (simp add: merge_left_Cons)
qed

lemma merge_left_sum:
  fixes f :: "'l \<Rightarrow> rat" and f' :: "'o \<Rightarrow> rat"
  assumes "\<And>l x. f' (c l x) = f l"
  shows "sum_list (map f' (merge_left on c ls rs))
       = sum_list (map (\<lambda>l. of_nat (join_count on rs l) * f l) ls)"
  unfolding merge_left_map[of f' c f, OF assms]
  by (induction ls) (simp_all add: sum_list_replicate)

lemma merge_left_mset:
  assumes "\<And>l x. k' (c l x) = k l"
  shows "mset (map k ls) \<subseteq># mset (map k' (merge_left on c ls rs))"
  unfolding merge_left_map[of k' c k, OF assms]
proof (induction ls)
  case Nil
  then show ?case by simp
next
  case (Cons l ls)
  obtain n where n: "join_count on rs l = Suc n"
    using join_count_pos[of on rs l] by (cases "join_count on rs l") auto
  have a: "{#k l#} \<subseteq># mset (replicate (join_count on rs l) (k l))"
    by (simp add: n)
  have l: "mset (map k (l # ls)) = {#k l#} + mset (map k ls)"
    by simp
  have r: "mset (concat (map (\<lambda>l. replicate (join_count on rs l) (k l)) (l # ls)))
      = mset (replicate (join_count on rs l) (k l))
        + mset (concat (map (\<lambda>l. replicate (join_count on rs l) (k l)) ls))"
    by simp
  show ?case
    unfolding l r using a Cons.IH by (rule subset_mset.add_mono)
qed

lemma merge_left_mem:
  assumes "l \<in> set ls"
  shows "\<exists>x. c l x \<in> set (merge_left on c ls rs) \<and> ((\<forall>r\<in>set rs. \<not> on l r) \<longrightarrow> x = None)"
proof (cases "filter (on l) rs")
  case Nil
  then have "c l None \<in> set (merge_left on c ls rs)"
    using assms by (auto simp: merge_left_def intro!: bexI[of _ l])
  then show ?thesis by blast
next
  case (Cons m ms)
  then have "c l (Some m) \<in> set (merge_left on c ls rs)"
    using assms by (auto simp: merge_left_def intro!: bexI[of _ l])
  moreover have "\<not> (\<forall>r\<in>set rs. \<not> on l r)"
    using Cons by (metis filter_empty_conv list.distinct(1))
  ultimately show ?thesis by blast
qed

lemma sales_view_InrI:
  assumes "pd_order_items pd = Some items" "pd_orders pd = Some orders"
    "pd_products pd = Some products" "pd_customers pd = Some customers"
    "pd_reviews pd = Some reviews"
  shows "create_sales_dataset pd yf mf sf =
     Inr \<lparr> columns = all_columns,
           rows = map with_delivery_days
             (merge_reviews
               (merge_customers
                 (merge_products
                   (apply_filters yf mf sf (merge_orders (map base_row items) orders))
                   products)
                 customers)
               reviews) \<rparr>"
  using assms by (simp add: create_sales_dataset_def Let_def)

lemma view_price_sum:
  "sum_list (map price (map with_delivery_days
      (merge_reviews (merge_customers (merge_products base products) customers) reviews)))
   = (\<Sum>b\<leftarrow>base. price b * of_nat (fanout products customers reviews b))"
proof -
  let ?jp = "join_count (\<lambda>s p. product_id s = p_product_id p) products"
  let ?jc = "join_count (\<lambda>s c. customer_id s = Some (cu_customer_id c)) customers"
  let ?jr = "join_count (\<lambda>s r. order_id s = rv_order_id r) reviews"
  let ?s5 = "merge_products base products"
  let ?s6 = "merge_customers ?s5 customers"
  let ?s7 = "merge_reviews ?s6 reviews"
  have "sum_list (map price (map with_delivery_days ?s7)) = sum_list (map price ?s7)"
    by (simp add: o_def with_delivery_days_def)
  also have "\<dots> = sum_list (map (\<lambda>l. of_nat (?jr l) * price l) ?s6)"
    unfolding merge_reviews_def
    by (rule merge_left_sum) (simp add: with_review_def)
  also have "\<dots> = sum_list (map (\<lambda>l. of_nat (?jc l) * (of_nat (?jr l) * price l)) ?s5)"
    unfolding merge_customers_def
    by (rule merge_left_sum) (simp add: with_customer_def join_count_def)
  also have "\<dots> = sum_list (map (\<lambda>l. of_nat (?jp l) * (of_nat (?jc l) * (of_nat (?jr l) * price l))) base)"
    unfolding merge_products_def
    by (rule merge_left_sum) (simp add: with_product_def join_count_def)
  also have "\<dots> = (\<Sum>b\<leftarrow>base. price b * of_nat (fanout products customers reviews b))"
    by (simp add: fanout_def mult_ac)
  finally show ?thesis .
qed

lemma view_keys_mset:
  "mset (map item_key base) \<subseteq># mset (map item_key (map with_delivery_days
      (merge_reviews (merge_customers (merge_products base products) customers) reviews)))"
proof -
  let ?s5 = "merge_products base products"
  let ?s6 = "merge_customers ?s5 customers"
  let ?s7 = "merge_reviews ?s6 reviews"
  have a: "mset (map item_key base) \<subseteq># mset (map item_key ?s5)"
    unfolding merge_products_def
    by (rule merge_left_mset) (simp add: with_product_def item_key_def)
  have b: "mset (map item_key ?s5) \<subseteq># mset (map item_key ?s6)"
    unfolding merge_customers_def
    by (rule merge_left_mset) (simp add: with_customer_def item_key_def)
  have c: "mset (map item_key ?s6) \<subseteq># mset (map item_key ?s7)"
    unfolding merge_reviews_def
    by (rule merge_left_mset) (simp add: with_review_def item_key_def)
  have d: "map item_key (map with_delivery_days ?s7) = map item_key ?s7"
    by (simp add: o_def with_delivery_days_def item_key_def)
  from a b c show ?thesis
    unfolding d by (meson subset_mset.order_trans)
qed

lemma view_row_exists:
  assumes "b \<in> set base"
  shows "\<exists>r\<in>set (map with_delivery_days
      (merge_reviews (merge_customers (merge_products base products) customers) reviews)).
      item_key r = item_key b
    \<and> ((\<forall>p\<in>set products. p_product_id p \<noteq> product_id b) \<longrightarrow> product_category_name r = None)
    \<and> ((\<forall>c\<in>set customers. Some (cu_customer_id c) \<noteq> customer_id b) \<longrightarrow>
          customer_state r = None \<and> customer_city r = None)
    \<and> ((\<forall>v\<in>set reviews. rv_order_id v \<noteq> order_id b) \<longrightarrow> review_score r = None)"
proof -
  let ?s5 = "merge_products base products"
  let ?s6 = "merge_customers ?s5 customers"
  let ?s7 = "merge_reviews ?s6 reviews"
  from merge_left_mem[OF assms, of with_product "\<lambda>s p. product_id s = p_product_id p" products]
  obtain x1 where x1: "with_product b x1 \<in> set ?s5"
    "(\<forall>p\<in>set products. product_id b \<noteq> p_product_id p) \<longrightarrow> x1 = None"
    unfolding merge_products_def by blast
  let ?r1 = "with_product b x1"
  from merge_left_mem[OF x1(1), of with_customer
      "\<lambda>s c. customer_id s = Some (cu_customer_id c)" customers]
  obtain x2 where x2: "with_customer ?r1 x2 \<in> set ?s6"
    "(\<forall>c\<in>set customers. customer_id ?r1 \<noteq> Some (cu_customer_id c)) \<longrightarrow> x2 = None"
    unfolding merge_customers_def by blast
  let ?r2 = "with_customer ?r1 x2"
  from merge_left_mem[OF x2(1), of with_review "\<lambda>s r. order_id s = rv_order_id r" reviews]
  obtain x3 where x3: "with_review ?r2 x3 \<in> set ?s7"
    "(\<forall>v\<in>set reviews. order_id ?r2 \<noteq> rv_order_id v) \<longrightarrow> x3 = None"
    unfolding merge_reviews_def by blast
  let ?r = "with_delivery_days (with_review ?r2 x3)"
  have mem: "?r \<in> set (map with_delivery_days ?s7)"
    using x3(1) by simp
  have key: "item_key ?r = item_key b"
    by (simp add: item_key_def with_delivery_days_def with_review_def with_customer_def
        with_product_def)
  have p: "product_category_name ?r = None"
    if "\<forall>p\<in>set products. p_product_id p \<noteq> product_id b"
  proof -
    from that x1(2) have "x1 = None" by (metis)
    then show ?thesis
      by (simp add: with_delivery_days_def with_review_def with_customer_def with_product_def)
  qed
  have c: "customer_state ?r = None \<and> customer_city ?r = None"
    if "\<forall>c\<in>set customers. Some (cu_customer_id c) \<noteq> customer_id b"
  proof -
    have "customer_id ?r1 = customer_id b" by (simp add: with_product_def)
    with that x2(2) have "x2 = None" by (metis)
    then show ?thesis
      by (simp add: with_delivery_days_def with_review_def with_customer_def)
  qed
  have v: "review_score ?r = None"
    if "\<forall>v\<in>set reviews. rv_order_id v \<noteq> order_id b"
  proof -
    have "order_id ?r2 = order_id b" by (simp add: with_product_def with_customer_def)
    with that x3(2) have "x3 = None" by (metis)
    then show ?thesis
      by (simp add: with_delivery_days_def with_review_def)
  qed
  from mem key p c v show ?thesis by blast
qed

lemma revenue_metrics_returns:
  "''price'' \<in> set (columns sd) \<Longrightarrow> ''order_id'' \<in> set (columns sd) \<Longrightarrow> rows sd \<noteq> [] \<Longrightarrow>
     \<exists>m. calculate_revenue_metrics sd None = Inr m"
  by (simp add: calculate_revenue_metrics_def Let_def nunique_0)

text \<open>
  Claim C1.  With all five tables cleaned, \<open>create_sales_dataset\<close> returns a sales
  view, and no record of the order-items base that passed the filters is dropped by
  the joins with products, customers and reviews: every such record occurs in the
  view at least as often as in the base; it has a row in the view whose category is
  missing when no product row matches, whose state and city are missing when no
  customer row matches and whose score is missing when no review row matches; and
  \<open>total_revenue\<close> computed over the view counts the price of every base record
  once for each row the joins give it, which is at least once.
\<close>

theorem left_joins_keep_records:
  assumes "pd_order_items pd = Some items" and "pd_orders pd = Some orders"
    and "pd_products pd = Some products" and "pd_customers pd = Some customers"
    and "pd_reviews pd = Some reviews"
  shows "\<exists>view. create_sales_dataset pd year_filter month_filter status_filter = Inr view
     \<and> (let base = apply_filters year_filter month_filter status_filter
                      (merge_orders (map base_row items) orders)
        in mset (map item_key base) \<subseteq># mset (map item_key (rows view))
         \<and> (\<forall>b\<in>set base. \<exists>r\<in>set (rows view).
               item_key r = item_key b
             \<and> ((\<forall>p\<in>set products. p_product_id p \<noteq> product_id b) \<longrightarrow>
                   product_category_name r = None)
             \<and> ((\<forall>c\<in>set customers. Some (cu_customer_id c) \<noteq> customer_id b) \<longrightarrow>
                   customer_state r = None \<and> customer_city r = None)
             \<and> ((\<forall>v\<in>set reviews. rv_order_id v \<noteq> order_id b) \<longrightarrow> review_score r = None))
         \<and> (\<forall>b. 1 \<le> fanout products customers reviews b)
         \<and> (\<forall>comparison m. calculate_revenue_metrics view comparison = Inr m \<longrightarrow>
               total_revenue m
                 = (\<Sum>b\<leftarrow>base. price b * of_nat (fanout products customers reviews b))))"
proof -
  define base where "base = apply_filters year_filter month_filter status_filter
                      (merge_orders (map base_row items) orders)"
  define view where "view = \<lparr> columns = all_columns,
           rows = map with_delivery_days
             (merge_reviews (merge_customers (merge_products base products) customers) reviews) \<rparr>"
  have ret: "create_sales_dataset pd year_filter month_filter status_filter = Inr view"
    unfolding view_def base_def using assms by (rule sales_view_InrI)
  have rows: "rows view = map with_delivery_days
             (merge_reviews (merge_customers (merge_products base products) customers) reviews)"
    by (simp add: view_def)
  have a: "mset (map item_key base) \<subseteq># mset (map item_key (rows view))"
    unfolding rows by (rule view_keys_mset)
  have b: "\<forall>b\<in>set base. \<exists>r\<in>set (rows view).
               item_key r = item_key b
             \<and> ((\<forall>p\<in>set products. p_product_id p \<noteq> product_id b) \<longrightarrow>
                   product_category_name r = None)
             \<and> ((\<forall>c\<in>set customers. Some (cu_customer_id c) \<noteq> customer_id b) \<longrightarrow>
                   customer_state r = None \<and> customer_city r = None)
             \<and> ((\<forall>v\<in>set reviews. rv_order_id v \<noteq> order_id b) \<longrightarrow> review_score r = None)"
    unfolding rows using view_row_exists by blast
  have c: "\<forall>b. 1 \<le> fanout products customers reviews b"
    by (simp add: fanout_def join_count_def)
  have d: "\<forall>comparison m. calculate_revenue_metrics view comparison = Inr m \<longrightarrow>
               total_revenue m
                 = (\<Sum>b\<leftarrow>base. price b * of_nat (fanout products customers reviews b))"
  proof (intro allI impI)
    fix comparison m
    assume "calculate_revenue_metrics view comparison = Inr m"
    then have "total_revenue m = sum_list (map price (rows view))"
      by (rule revenue_metrics_InrD(2))
    then show "total_revenue m
                 = (\<Sum>b\<leftarrow>base. price b * of_nat (fanout products customers reviews b))"
      unfolding rows by (simp only: view_price_sum)
  qed
  from ret a b c d show ?thesis
    unfolding Let_def base_def[symmetric] by blast
qed

theorem left_joins_keep_records_witness:
  "\<exists>view m. create_sales_dataset example_tables (Some 2023) None (Some ''delivered'') = Inr view
     \<and> length (rows view) = 2
     \<and> (\<exists>r\<in>set (rows view). order_id r = ''O2'' \<and> price r = 50
           \<and> product_category_name r = None \<and> customer_state r = None
           \<and> customer_city r = None \<and> review_score r = None)
     \<and> calculate_revenue_metrics view None = Inr m \<and> total_revenue m = 150"
proof -
  let ?items = "the (pd_order_items example_tables)"
  let ?orders = "the (pd_orders example_tables)"
  let ?products = "the (pd_products example_tables)"
  let ?customers = "the (pd_customers example_tables)"
  let ?reviews = "the (pd_reviews example_tables)"
  let ?b1 = "with_order (base_row (?items ! 0)) (Some (?orders ! 0))"
  let ?b2 = "with_order (base_row (?items ! 1)) (Some (?orders ! 1))"
  have tabs: "pd_order_items example_tables = Some ?items" "pd_orders example_tables = Some ?orders"
    "pd_products example_tables = Some ?products" "pd_customers example_tables = Some ?customers"
    "pd_reviews example_tables = Some ?reviews"
    by (simp_all add: example_tables_def)
  have base: "apply_filters (Some 2023) None (Some ''delivered'')
      (merge_orders (map base_row ?items) ?orders) = [?b1, ?b2]"
    by code_simp
  have fan: "fanout ?products ?customers ?reviews ?b1 = 1"
    "fanout ?products ?customers ?reviews ?b2 = 1"
    by code_simp+
  have pr: "price ?b1 = 100" "price ?b2 = 50" "order_id ?b2 = ''O2''"
    by code_simp+
  have miss: "\<forall>p\<in>set ?products. p_product_id p \<noteq> product_id ?b2"
    "\<forall>c\<in>set ?customers. Some (cu_customer_id c) \<noteq> customer_id ?b2"
    "\<forall>v\<in>set ?reviews. rv_order_id v \<noteq> order_id ?b2"
    by (simp_all add: example_tables_def with_order_def base_row_def)
  from left_joins_keep_records[OF tabs, of "Some 2023" None "Some ''delivered''"]
  obtain view where
    v: "create_sales_dataset example_tables (Some 2023) None (Some ''delivered'') = Inr view"
    and rw: "\<forall>b\<in>set [?b1, ?b2]. \<exists>r\<in>set (rows view).
               item_key r = item_key b
             \<and> ((\<forall>p\<in>set ?products. p_product_id p \<noteq> product_id b) \<longrightarrow>
                   product_category_name r = None)
             \<and> ((\<forall>c\<in>set ?customers. Some (cu_customer_id c) \<noteq> customer_id b) \<longrightarrow>
                   customer_state r = None \<and> customer_city r = None)
             \<and> ((\<forall>v\<in>set ?reviews. rv_order_id v \<noteq> order_id b) \<longrightarrow> review_score r = None)"
    and tot: "\<forall>comparison m. calculate_revenue_metrics view comparison = Inr m \<longrightarrow>
               total_revenue m
                 = (\<Sum>b\<leftarrow>[?b1, ?b2]. price b * of_nat (fanout ?products ?customers ?reviews b))"
    unfolding Let_def base by blast
  from rw miss obtain r where r: "r \<in> set (rows view)" "item_key r = item_key ?b2"
    "product_category_name r = None" "customer_state r = None" "customer_city r = None"
    "review_score r = None"
    by (metis list.set_intros(1,2))
  from r(2) pr have r2: "order_id r = ''O2''" "price r = 50"
    by (simp_all add: item_key_def)
  have view: "view = \<lparr> columns = all_columns,
           rows = map with_delivery_days
             (merge_reviews (merge_customers (merge_products [?b1, ?b2] ?products) ?customers)
                ?reviews) \<rparr>"
    using v sales_view_InrI[OF tabs, of "Some 2023" None "Some ''delivered''"]
    unfolding base by simp
  have len: "length (rows view) = 2"
    unfolding view by code_simp
  have cols: "''price'' \<in> set (columns view)" "''order_id'' \<in> set (columns view)"
    unfolding view by (simp_all add: all_columns_def)
  have "rows view \<noteq> []" using r(1) by auto
  with cols obtain m where m: "calculate_revenue_metrics view None = Inr m"
    using revenue_metrics_returns by blast
  with tot have "total_revenue m
      = (\<Sum>b\<leftarrow>[?b1, ?b2]. price b * of_nat (fanout ?products ?customers ?reviews b))"
    by blast
  also have "\<dots> = price ?b1 * of_nat (fanout ?products ?customers ?reviews ?b1)
      + price ?b2 * of_nat (fanout ?products ?customers ?reviews ?b2)"
    by (simp only: list.map sum_list.Cons sum_list.Nil add_0_right)
  also have "\<dots> = 150"
    unfolding fan pr by simp
  finally have "total_revenue m = 150" .
  with v len r r2 m show ?thesis by blast
qed

end
